theory Spec2Isabelle
  imports Complex_Main
begin

section \<open>Values of the Python program\<close>

text \<open>
  A Python \<open>str\<close> is a sequence of Unicode code points, modelled as a list of naturals;
  \<open>bytes\<close> is a list of 8-bit characters. \<open>str\<close> turns a literal of the source into
  its code points.
\<close>

type_synonym pystr = "nat list"
type_synonym bytes = "string"

definition cp :: "char \<Rightarrow> nat" where
  "cp c = of_char c"

definition str :: "string \<Rightarrow> pystr" where
  "str cs = map cp cs"

text \<open>The objects that the cache and the two retrieval methods hand back:
  \<open>None\<close>, \<open>False\<close>/\<open>True\<close> or a \<open>bytes\<close> object, with Python's truth value.\<close>

datatype pyval = PyNone | PyBool bool | PyBytes bytes

fun truthy :: "pyval \<Rightarrow> bool" where
  "truthy PyNone = False"
| "truthy (PyBool b) = b"
| "truthy (PyBytes b) = (b \<noteq> [])"

text \<open>\<open>not x\<close> for a value that is a \<open>str\<close> or \<open>None\<close>.\<close>

fun str_falsy :: "pystr option \<Rightarrow> bool" where
  "str_falsy None = True"
| "str_falsy (Some u) = (u = [])"

text \<open>
  Exceptions. The three classes of the repository carry their message; \<open>TypeError\<close>,
  \<open>IndexError\<close>, \<open>ValueError\<close>, \<open>AttributeError\<close> and \<open>OverflowError\<close> are the built-in ones that the modelled statements
  can raise; \<open>LibraryError\<close> stands for whatever urllib, dnspython or lxml raise
  (URLError, socket.timeout, NoAnswer, XMLSyntaxError, ...), named by the environment.
\<close>

datatype exc =
    ValidationError pystr
  | NoValueError pystr
  | NoElementError pystr
  | TypeError
  | IndexError
  | ValueError
  | AttributeError
  | OverflowError
  | LibraryError pystr

section \<open>Regular expressions of the \<open>re\<close> module\<close>

text \<open>
  The fragment of regular expressions that the LSID pattern uses: character classes,
  sequence, alternative (for the optional group) and star. Matching is decided with
  derivatives, which agrees with a backtracking engine on whether a match exists.
\<close>

datatype rx = Nul | Eps | Cls "nat \<Rightarrow> bool" | Seq rx rx | Alt rx rx | Star rx

fun nullable :: "rx \<Rightarrow> bool" where
  "nullable Nul = False"
| "nullable Eps = True"
| "nullable (Cls p) = False"
| "nullable (Seq r s) = (nullable r \<and> nullable s)"
| "nullable (Alt r s) = (nullable r \<or> nullable s)"
| "nullable (Star r) = True"

fun deriv :: "nat \<Rightarrow> rx \<Rightarrow> rx" where
  "deriv c Nul = Nul"
| "deriv c Eps = Nul"
| "deriv c (Cls p) = (if p c then Eps else Nul)"
| "deriv c (Seq r s) =
     (if nullable r then Alt (Seq (deriv c r) s) (deriv c s) else Seq (deriv c r) s)"
| "deriv c (Alt r s) = Alt (deriv c r) (deriv c s)"
| "deriv c (Star r) = Seq (deriv c r) (Star r)"

fun matches :: "rx \<Rightarrow> pystr \<Rightarrow> bool" where
  "matches r [] = nullable r"
| "matches r (c # cs) = matches (deriv c r) cs"

text \<open>
  \<open>re.match\<close> of a pattern \<open>^r$\<close>: the match starts at the first character, and \<open>$\<close>
  holds at the end of the string and also just before a newline that ends the string.
\<close>

definition newline :: nat where
  "newline = 10"

definition re_match_anchored :: "rx \<Rightarrow> pystr \<Rightarrow> bool" where
  "re_match_anchored r s =
     (matches r s \<or> (s \<noteq> [] \<and> last s = newline \<and> matches r (butlast s)))"

text \<open>The language of an expression, used to reason about \<open>matches\<close>.\<close>

inductive_set star :: "pystr set \<Rightarrow> pystr set" for A :: "pystr set" where
  star_nil: "[] \<in> star A"
| star_app: "u \<in> A \<Longrightarrow> v \<in> star A \<Longrightarrow> u @ v \<in> star A"

definition conc :: "pystr set \<Rightarrow> pystr set \<Rightarrow> pystr set" where
  "conc A B = {u @ v | u v. u \<in> A \<and> v \<in> B}"

fun lang :: "rx \<Rightarrow> pystr set" where
  "lang Nul = {}"
| "lang Eps = {[]}"
| "lang (Cls p) = {[c] | c. p c}"
| "lang (Seq r s) = conc (lang r) (lang s)"
| "lang (Alt r s) = lang r \<union> lang s"
| "lang (Star r) = star (lang r)"

subsection \<open>The character classes and the pattern of \<open>validate_lsid\<close>\<close>

definition one_of :: "string \<Rightarrow> nat \<Rightarrow> bool" where
  "one_of cs c = (c \<in> set (str cs))"

definition ascii_alnum :: "nat \<Rightarrow> bool" where
  "ascii_alnum c =
     ((cp CHR ''A'' \<le> c \<and> c \<le> cp CHR ''Z'') \<or> (cp CHR ''a'' \<le> c \<and> c \<le> cp CHR ''z'')
      \<or> (cp CHR ''0'' \<le> c \<and> c \<le> cp CHR ''9''))"

text \<open>
  \<open>\w\<close> in a \<open>str\<close> pattern is Unicode-aware: the underscore and every character for
  which \<open>str.isalnum\<close> holds. Below 128 these are the ASCII letters and digits; above,
  the Unicode table \<open>uw\<close> of the interpreter decides.
\<close>

definition word_char :: "(nat \<Rightarrow> bool) \<Rightarrow> nat \<Rightarrow> bool" where
  "word_char uw c = (if c < 128 then ascii_alnum c \<or> c = cp CHR ''_'' else uw c)"

text \<open>The class \<^verbatim>\<open>[\w()+,\-.=@;$"!*\']\<close>; 34 is the double quote, 39 the single quote.\<close>

definition seg_char :: "(nat \<Rightarrow> bool) \<Rightarrow> nat \<Rightarrow> bool" where
  "seg_char uw c = (word_char uw c \<or> one_of ''()+,-.=@;$!*'' c \<or> c = 34 \<or> c = 39)"

fun seq_list :: "rx list \<Rightarrow> rx" where
  "seq_list [] = Eps"
| "seq_list (r # rs) = Seq r (seq_list rs)"

definition segment_rx :: "(nat \<Rightarrow> bool) \<Rightarrow> rx" where
  "segment_rx uw = Seq (Cls ascii_alnum) (Star (Cls (seg_char uw)))"

definition colon :: nat where
  "colon = cp CHR '':''"

definition lsid_pattern :: "(nat \<Rightarrow> bool) \<Rightarrow> rx" where
  "lsid_pattern uw = seq_list
     [Cls (one_of ''uU''), Cls (one_of ''rR''), Cls (one_of ''nN''), Cls (\<lambda>c. c = colon),
      Cls (one_of ''lL''), Cls (one_of ''sS''), Cls (one_of ''iI''), Cls (one_of ''dD''),
      Cls (\<lambda>c. c = colon),
      segment_rx uw, Cls (\<lambda>c. c = colon),
      segment_rx uw, Cls (\<lambda>c. c = colon),
      segment_rx uw,
      Alt (Seq (Cls (\<lambda>c. c = colon)) (segment_rx uw)) Eps]"

section \<open>Strings: \<open>split\<close>, \<open>str\<close> of an integer, suffixes\<close>

text \<open>\<open>s.split(d)\<close> for a separator of one character.\<close>

fun split_on :: "nat \<Rightarrow> pystr \<Rightarrow> pystr list" where
  "split_on d [] = [[]]"
| "split_on d (c # cs) =
     (if c = d then [] # split_on d cs
      else (case split_on d cs of [] \<Rightarrow> [[c]] | w # ws \<Rightarrow> (c # w) # ws))"

text \<open>\<open>str(n)\<close> for a non-negative integer: its decimal digits.\<close>

function str_nat :: "nat \<Rightarrow> pystr" where
  "str_nat n = (if n < 10 then [48 + n] else str_nat (n div 10) @ [48 + n mod 10])"
  by pat_completeness auto
termination
  by (relation "measure id") auto

declare str_nat.simps [simp del]

definition endswith :: "pystr \<Rightarrow> pystr \<Rightarrow> bool" where
  "endswith s t = (length t \<le> length s \<and> drop (length s - length t) s = t)"

section \<open>XML documents and the XPath queries\<close>

text \<open>
  An element of an lxml tree: the namespace and local name of its tag, its attributes
  (keyed by name, unprefixed attributes by their plain name) and its child elements in
  document order. Text, comments and processing instructions play no part in the
  queries of the program and are left out.
\<close>

datatype element =
  Element (tag_ns: pystr) (tag_local: pystr) (attrib: "(pystr \<times> pystr) list")
    (children: "element list")

text \<open>\<open>node.get(name)\<close>: the attribute value, or \<open>None\<close>.\<close>

definition get_attr :: "element \<Rightarrow> pystr \<Rightarrow> pystr option" where
  "get_attr e k = map_of (attrib e) k"

text \<open>The entries of the global \<open>NAMESPACES\<close> that name elements.\<close>

definition wsdl_ns :: pystr where
  "wsdl_ns = str ''http://schemas.xmlsoap.org/wsdl/''"

definition http_ns :: pystr where
  "http_ns = str ''http://schemas.xmlsoap.org/wsdl/http/''"

text \<open>The XPath step \<open>prefix:name\<close> on the child axis.\<close>

definition child_named :: "pystr \<Rightarrow> pystr \<Rightarrow> element \<Rightarrow> element list" where
  "child_named ns l e = filter (\<lambda>c. tag_ns c = ns \<and> tag_local c = l) (children e)"

text \<open>
  \<open>re:test(@binding, 'lit$')\<close>: the attribute converts to its value, or to the empty
  string when it is absent; the EXSLT function of lxml searches with Python's \<open>re\<close>, so
  the literal has to end the value, or to be followed only by a final newline.
\<close>

definition re_test_binding :: "element \<Rightarrow> pystr \<Rightarrow> bool" where
  "re_test_binding e lit =
     (let v = (case get_attr e (str ''binding'') of None \<Rightarrow> [] | Some b \<Rightarrow> b)
      in endswith v lit \<or> endswith v (lit @ [newline]))"

text \<open>\<open>wsdl:service/wsdl:port[re:test(@binding, 'lit$')]\<close> from the root element \<open>wsdl\<close>.\<close>

definition matching_ports :: "pystr \<Rightarrow> element \<Rightarrow> element list" where
  "matching_ports lit wsdl =
     concat (map (\<lambda>svc. filter (\<lambda>p. re_test_binding p lit) (child_named wsdl_ns (str ''port'') svc))
       (child_named wsdl_ns (str ''service'') wsdl))"

text \<open>The query of \<open>extract_authority_url\<close>, with last step \<open>*[local-name()='address']\<close>.\<close>

definition authority_nodes :: "element \<Rightarrow> element list" where
  "authority_nodes wsdl =
     concat (map (\<lambda>p. filter (\<lambda>a. tag_local a = str ''address'') (children p))
       (matching_ports (str ''LSIDAuthorityHTTPBinding'') wsdl))"

text \<open>The two queries of \<open>extract_service_url\<close>, with last step \<open>http:address\<close>.\<close>

definition data_nodes :: "element \<Rightarrow> element list" where
  "data_nodes wsdl =
     concat (map (child_named http_ns (str ''address''))
       (matching_ports (str '':LSIDDataHTTPBinding'') wsdl))"

definition metadata_nodes :: "element \<Rightarrow> element list" where
  "metadata_nodes wsdl =
     concat (map (child_named http_ns (str ''address''))
       (matching_ports (str '':LSIDMetadataHTTPBinding'') wsdl))"

section \<open>The process state and its environment\<close>

record authority =
  url_part :: "pystr option"
  service_url :: "pystr option"
  service_port :: "pystr option"
  authority_url :: "pystr option"

record service =
  data_url :: "pystr option"
  metadata_url :: "pystr option"

text \<open>A file under \<open>cache/\<close>: its bytes and its modification time (seconds since the epoch).\<close>

record cache_file =
  content :: bytes
  mtime :: real

text \<open>What the process does to the outside: lines printed, DNS queries, HTTP requests
  (with the \<open>timeout\<close> argument of \<open>urlopen\<close>, \<open>None\<close> when it is not passed).
  \<open>PrintValue\<close> is \<open>print\<close> of an object that is not a \<open>str\<close>, \<open>PrintError e\<close> the
  line that shows \<open>str(e)\<close> in red.\<close>

datatype event =
    Print pystr
  | PrintValue pyval
  | PrintError exc
  | DnsQuery pystr pystr
  | HttpGet pystr "nat option"

text \<open>
  The state of the process: the fields of the \<open>Resolver\<close> with its \<open>Authority\<close> and
  \<open>Service\<close>, the class attribute \<open>Cache._instance\<close> (an object identity) with the
  allocator of identities, the files below \<open>cache/\<close> keyed by their path, the clock
  (seconds since the epoch) and the events so far.
\<close>

record proc =
  lsid :: "pystr option"
  authority :: authority
  service :: service
  cache_cls_instance :: "nat option"
  next_id :: nat
  files :: "pystr \<rightharpoonup> cache_file"
  now :: real
  out :: "event list"

record srv =
  target :: pystr
  port :: nat

text \<open>
  What the program reads from outside and from its libraries: the Unicode table behind
  \<open>\w\<close>, the SRV answers for a query name (\<open>target\<close> is \<open>target.to_text()\<close>), the body
  that a GET of a URL yields, the XML parser \<open>etree.fromstring\<close>, the offset of
  local time from UTC at a timestamp, and the exception that the interpreter raises for a
  date outside the years 1 to 9999 (\<open>ValueError\<close>, or \<open>OverflowError\<close> and \<open>OSError\<close>
  beyond what the platform converts).
\<close>

record env =
  unicode_alnum :: "nat \<Rightarrow> bool"
  srv_lookup :: "pystr \<Rightarrow> exc + srv list"
  http_get :: "pystr \<Rightarrow> exc + bytes"
  fromstring :: "bytes \<Rightarrow> exc + element"
  utcoffset :: "real \<Rightarrow> real"
  date_error :: "real \<Rightarrow> exc"

subsection \<open>Statements: state passing with exceptions\<close>

text \<open>A statement maps the state to a result or an exception, and the state it leaves;
  what was mutated before an exception stays mutated.\<close>

type_synonym 'a io = "proc \<Rightarrow> (exc + 'a) \<times> proc"

definition ret :: "'a \<Rightarrow> 'a io" where
  "ret x = (\<lambda>s. (Inr x, s))"

definition throw :: "exc \<Rightarrow> 'a io" where
  "throw e = (\<lambda>s. (Inl e, s))"

definition bnd :: "'a io \<Rightarrow> ('a \<Rightarrow> 'b io) \<Rightarrow> 'b io" where
  "bnd m f = (\<lambda>s. case m s of (Inl e, s') \<Rightarrow> (Inl e, s') | (Inr x, s') \<Rightarrow> f x s')"

definition thn :: "'a io \<Rightarrow> 'b io \<Rightarrow> 'b io" where
  "thn m k = bnd m (\<lambda>_. k)"

text \<open>\<open>try: m except: h\<close>, the handler seeing the exception.\<close>

definition try_except :: "'a io \<Rightarrow> (exc \<Rightarrow> 'a io) \<Rightarrow> 'a io" where
  "try_except m h = (\<lambda>s. case m s of (Inl e, s') \<Rightarrow> h e s' | (Inr x, s') \<Rightarrow> (Inr x, s'))"

definition lift :: "(exc + 'a) \<Rightarrow> 'a io" where
  "lift r = (\<lambda>s. (r, s))"

definition emit :: "event \<Rightarrow> unit io" where
  "emit e = (\<lambda>s. (Inr (), s\<lparr>out := out s @ [e]\<rparr>))"

definition modify :: "(proc \<Rightarrow> proc) \<Rightarrow> unit io" where
  "modify f = (\<lambda>s. (Inr (), f s))"

definition reads :: "(proc \<Rightarrow> 'a) \<Rightarrow> 'a io" where
  "reads f = (\<lambda>s. (Inr (f s), s))"

text \<open>\<open>a + b\<close> on strings where \<open>b\<close> may be \<open>None\<close>, and an operand that must be a \<open>str\<close>.\<close>

definition need_str :: "pystr option \<Rightarrow> pystr io" where
  "need_str v = (case v of None \<Rightarrow> throw TypeError | Some u \<Rightarrow> ret u)"

definition add_str :: "pystr \<Rightarrow> pystr option \<Rightarrow> pystr io" where
  "add_str a b = bnd (need_str b) (\<lambda>u. ret (a @ u))"

text \<open>\<open>(x,) = xs\<close>: unpacking a list that must have one element.\<close>

definition unpack1 :: "'a list \<Rightarrow> 'a io" where
  "unpack1 xs = (case xs of [x] \<Rightarrow> ret x | _ \<Rightarrow> throw ValueError)"

definition set_authority :: "(authority \<Rightarrow> authority) \<Rightarrow> unit io" where
  "set_authority f = modify (\<lambda>s. s\<lparr>authority := f (authority s)\<rparr>)"

definition set_service :: "(service \<Rightarrow> service) \<Rightarrow> unit io" where
  "set_service f = modify (\<lambda>s. s\<lparr>service := f (service s)\<rparr>)"

section \<open>Resolver.validate_lsid\<close>

definition validate_lsid :: "env \<Rightarrow> bool io" where
  "validate_lsid E =
     bnd (reads lsid) (\<lambda>l.
       case l of
         None \<Rightarrow> throw TypeError
       | Some s \<Rightarrow>
           if \<not> re_match_anchored (lsid_pattern (unicode_alnum E)) s
           then throw (ValidationError (str ''Error: LSID is not well formed!''))
           else thn (emit (Print (str ''This is a valid LSID''))) (ret True))"

section \<open>Singleton, CacheMixin and Cache\<close>

text \<open>
  \<open>Singleton.__call__\<close> for the class \<open>Cache\<close>: the first call creates the object and
  keeps it in \<open>Cache._instance\<close>, every call returns what is kept there.
\<close>

definition Cache_call :: "nat io" where
  "Cache_call =
     bnd (reads cache_cls_instance) (\<lambda>i.
       case i of
         None \<Rightarrow>
           bnd (reads next_id) (\<lambda>n.
           thn (modify (\<lambda>s. s\<lparr>cache_cls_instance := Some n, next_id := Suc n\<rparr>))
             (ret n))
       | Some c \<Rightarrow> ret c)"

text \<open>The property \<open>CacheMixin.cache_instance\<close>, inherited by \<open>Authority\<close> and \<open>Service\<close>.\<close>

definition cache_instance :: "nat io" where
  "cache_instance = Cache_call"

definition CACHE_TIME :: real where
  "CACHE_TIME = 172800"

definition PATH :: pystr where
  "PATH = str ''cache/''"

text \<open>
  Naive \<open>datetime\<close> values are counted in seconds since 1970-01-01 00:00 on their own
  wall clock. They have a resolution of one microsecond and range from year 1 to year
  9999; a value outside this range cannot be built.
\<close>

definition DATETIME_MIN :: real where
  "DATETIME_MIN = - 62135596800"

definition DATETIME_END :: real where
  "DATETIME_END = 253402300800"

definition new_datetime :: "env \<Rightarrow> real \<Rightarrow> real io" where
  "new_datetime E d =
     (if DATETIME_MIN \<le> d \<and> d < DATETIME_END then ret d else throw (date_error E d))"

text \<open>Cutting a time down to the whole microsecond, and rounding it to the nearest
  microsecond with ties going to the even one.\<close>

definition floor_us :: "real \<Rightarrow> real" where
  "floor_us t = of_int \<lfloor>t * 1000000\<rfloor> / 1000000"

definition round_half_even :: "real \<Rightarrow> int" where
  "round_half_even y =
     (if y - of_int \<lfloor>y\<rfloor> < 1 / 2 then \<lfloor>y\<rfloor>
      else if 1 / 2 < y - of_int \<lfloor>y\<rfloor> then \<lfloor>y\<rfloor> + 1
      else if even \<lfloor>y\<rfloor> then \<lfloor>y\<rfloor> else \<lfloor>y\<rfloor> + 1)"

definition round_us :: "real \<Rightarrow> real" where
  "round_us t = of_int (round_half_even (t * 1000000)) / 1000000"

text \<open>
  \<open>datetime.utcnow()\<close>: the clock, cut down to the microsecond, as a naive UTC time.
  \<open>datetime.fromtimestamp(ts)\<close>: the timestamp, rounded to the microsecond, as a naive
  local time (the offset is that of its whole second). \<open>d - timedelta(seconds=n)\<close>
  raises \<open>OverflowError\<close> when the result would lie before year 1.
\<close>

definition utcnow :: "env \<Rightarrow> real io" where
  "utcnow E = bnd (reads now) (\<lambda>t. new_datetime E (floor_us t))"

definition fromtimestamp_local :: "env \<Rightarrow> real \<Rightarrow> real io" where
  "fromtimestamp_local E ts =
     new_datetime E (round_us ts + utcoffset E (of_int \<lfloor>round_us ts\<rfloor>))"

definition minus_seconds :: "real \<Rightarrow> real \<Rightarrow> real io" where
  "minus_seconds d n = (if DATETIME_MIN \<le> d - n then ret (d - n) else throw OverflowError)"

text \<open>
  \<open>get_cache_expiration\<close>. The \<open>Cache\<close> object has no attributes of its own, so
  \<open>self\<close> only names the instance.
\<close>

definition get_cache_expiration :: "env \<Rightarrow> nat \<Rightarrow> real \<Rightarrow> bool io" where
  "get_cache_expiration E self file_date =
     bnd (bnd (utcnow E) (\<lambda>d. minus_seconds d CACHE_TIME)) (\<lambda>cache_valid.
     bnd (fromtimestamp_local E file_date) (\<lambda>file_datetime.
       if cache_valid \<le> file_datetime then ret True else ret False))"

definition check_cache_file :: "env \<Rightarrow> nat \<Rightarrow> pystr option \<Rightarrow> pystr \<Rightarrow> pyval io" where
  "check_cache_file E self service_name file_name =
     bnd (add_str PATH service_name) (\<lambda>path.
     bnd (reads (\<lambda>s. files s (path @ str ''/'' @ file_name))) (\<lambda>cache_file.
       case cache_file of
         None \<Rightarrow> ret (PyBool False)
       | Some f \<Rightarrow>
           bnd (get_cache_expiration E self (mtime f)) (\<lambda>valid.
             if valid then ret (PyBytes (content f)) else ret (PyBool False))))"

text \<open>\<open>store_cache_file\<close>: the file is written at the current time, which the file
  system keeps as its date; \<open>mtime\<close> is the number that \<open>os.path.getmtime\<close> returns.\<close>

definition store_cache_file :: "nat \<Rightarrow> pystr option \<Rightarrow> pystr \<Rightarrow> bytes \<Rightarrow> unit io" where
  "store_cache_file self service_name file_name cont =
     bnd (add_str PATH service_name) (\<lambda>path.
       modify (\<lambda>s. s\<lparr>files := (files s)(path @ str ''/'' @ file_name \<mapsto>
                        \<lparr>content = cont, mtime = now s\<rparr>)\<rparr>))"

section \<open>Authority\<close>


definition urlopen_read :: "env \<Rightarrow> pystr \<Rightarrow> nat option \<Rightarrow> bytes io" where
  "urlopen_read E url timeout = thn (emit (HttpGet url timeout)) (lift (http_get E url))"

text \<open>The body of the loop of \<open>set_service_url\<close> for one SRV record.\<close>

definition srv_body :: "srv \<Rightarrow> unit io" where
  "srv_body dnsdata =
     (let text = target dnsdata in
      if text = [] then throw IndexError
      else
        thn (if last text = cp CHR ''.''
             then set_authority (\<lambda>a. a\<lparr>service_url := Some (butlast text)\<rparr>)
             else set_authority (\<lambda>a. a\<lparr>service_url := Some text\<rparr>))
       (thn (set_authority (\<lambda>a. a\<lparr>service_port := Some (str_nat (port dnsdata))\<rparr>))
       (bnd (reads (\<lambda>s. service_url (authority s))) (\<lambda>u.
        bnd (add_str (str ''Service target: '') u) (\<lambda>m.
          emit (Print (m @ str '' | Port: '' @ str_nat (port dnsdata))))))))"

fun for_each :: "'a list \<Rightarrow> ('a \<Rightarrow> unit io) \<Rightarrow> unit io" where
  "for_each [] body = ret ()"
| "for_each (x # xs) body = thn (body x) (for_each xs body)"

definition set_service_url :: "env \<Rightarrow> unit io" where
  "set_service_url E =
     bnd (reads (\<lambda>s. url_part (authority s))) (\<lambda>up.
     bnd (add_str (str ''_lsid._tcp.'') up) (\<lambda>qname.
     thn (emit (DnsQuery qname (str ''SRV'')))
    (bnd (lift (srv_lookup E qname)) (\<lambda>answers.
     thn (for_each answers srv_body)
    (bnd (reads (\<lambda>s. service_url (authority s))) (\<lambda>u.
       if str_falsy u
       then throw (NoValueError (str ''Error: Unable to parse the service URL in SRV record''))
       else ret ()))))))"




text \<open>\<open>etree.fromstring(file)\<close> on what the cache returned.\<close>

definition fromstring_val :: "env \<Rightarrow> pyval \<Rightarrow> element io" where
  "fromstring_val E v = (case v of PyBytes b \<Rightarrow> lift (fromstring E b) | _ \<Rightarrow> throw TypeError)"

definition extract_authority_url :: "element \<Rightarrow> unit io" where
  "extract_authority_url wsdl =
     bnd (try_except (unpack1 (authority_nodes wsdl))
            (\<lambda>e. if e = ValueError
                 then throw (NoElementError (str ''No authority address element found''))
                 else throw e)) (\<lambda>node.
     thn (set_authority (\<lambda>a. a\<lparr>authority_url := get_attr node (str ''location'')\<rparr>))
    (bnd (add_str (str ''Authority binding: '') (get_attr node (str ''location''))) (\<lambda>m.
     thn (emit (Print m))
    (bnd (reads (\<lambda>s. authority_url (authority s))) (\<lambda>u.
       if str_falsy u
       then throw (NoValueError (str ''No HTTP binding in authority.wsdl found''))
       else ret ())))))"

text \<open>
  The first part of \<open>get_authority_wsdl\<close>, up to the call of \<open>extract_authority_url\<close>:
  it yields the parsed document \<open>wsdl\<close>, from the cache or from the network.
\<close>

definition load_authority_wsdl :: "env \<Rightarrow> element io" where
  "load_authority_wsdl E =
     bnd cache_instance (\<lambda>c.
     bnd (reads (\<lambda>s. url_part (authority s))) (\<lambda>up.
     bnd (check_cache_file E c up (str ''authority.wsdl'')) (\<lambda>file.
       if \<not> truthy file then
         thn (emit (Print (str ''No authority.wsdl file cached or file expired'')))
        (bnd (reads (\<lambda>s. service_port (authority s))) (\<lambda>sp.
         bnd (ret (if sp = Some (str ''443'') then str ''https://'' else str ''http://'')) (\<lambda>protocol.
         bnd (reads (\<lambda>s. service_url (authority s))) (\<lambda>su.
         bnd (add_str protocol su) (\<lambda>u1.
         bnd (add_str (u1 @ str '':'') sp) (\<lambda>u2.
         bnd (ret (u2 @ str ''/authority/'')) (\<lambda>url.
         bnd (urlopen_read E url (Some 120)) (\<lambda>wsdl_content.
         bnd (lift (fromstring E wsdl_content)) (\<lambda>wsdl.
         bnd cache_instance (\<lambda>c'.
         bnd (reads (\<lambda>s. url_part (authority s))) (\<lambda>up'.
         thn (store_cache_file c' up' (str ''authority.wsdl'') wsdl_content)
             (ret wsdl))))))))))))
       else
         thn (emit (Print (str ''Cached authority.wsdl file available'')))
             (fromstring_val E file))))"


section \<open>Service\<close>

definition extract_service_url :: "element \<Rightarrow> unit io" where
  "extract_service_url wsdl =
     thn (try_except
            (bnd (unpack1 (data_nodes wsdl)) (\<lambda>node_data.
             thn (set_service (\<lambda>v. v\<lparr>data_url := get_attr node_data (str ''location'')\<rparr>))
            (bnd (add_str (str ''Data service HTTP binding: '')
                    (get_attr node_data (str ''location''))) (\<lambda>m.
               emit (Print m)))))
            (\<lambda>e. if e = ValueError then emit (Print (str ''No data service endpoint found''))
                 else throw e))
         (try_except
            (bnd (unpack1 (metadata_nodes wsdl)) (\<lambda>node_metadata.
             thn (set_service (\<lambda>v. v\<lparr>metadata_url := get_attr node_metadata (str ''location'')\<rparr>))
            (bnd (add_str (str ''Metadata service HTTP binding : '')
                    (get_attr node_metadata (str ''location''))) (\<lambda>m.
               emit (Print m)))))
            (\<lambda>e. if e = ValueError then emit (Print (str ''No metadata service endpoint found''))
                 else throw e))"

text \<open>
  The first part of \<open>get_service_wsdl\<close>, up to the call of \<open>extract_service_url\<close>.
\<close>

definition load_service_wsdl ::
  "env \<Rightarrow> pystr option \<Rightarrow> pystr option \<Rightarrow> pystr option \<Rightarrow> element io" where
  "load_service_wsdl E auth_url service_name l =
     bnd cache_instance (\<lambda>c.
     bnd (check_cache_file E c service_name (str ''service.wsdl'')) (\<lambda>file.
       if \<not> truthy file then
         thn (emit (Print (str ''No service.wsdl file cached or file expired'')))
        (bnd (need_str auth_url) (\<lambda>au.
         bnd (add_str (au @ str ''/authority/?lsid='') l) (\<lambda>url.
         bnd (urlopen_read E url (Some 120)) (\<lambda>wsdl_content.
         bnd (lift (fromstring E wsdl_content)) (\<lambda>wsdl.
         bnd cache_instance (\<lambda>c'.
         thn (store_cache_file c' service_name (str ''service.wsdl'') wsdl_content)
             (ret wsdl)))))))
       else
         thn (emit (Print (str ''Cached service.wsdl file available'')))
             (fromstring_val E file)))"


definition get_data :: "env \<Rightarrow> pystr option \<Rightarrow> pyval io" where
  "get_data E l =
     bnd (reads (\<lambda>s. data_url (service s))) (\<lambda>du.
       case du of
         None \<Rightarrow> thn (emit (Print (str ''No data URL available''))) (ret (PyBool False))
       | Some u \<Rightarrow>
           bnd (add_str (u @ str ''?lsid='') l) (\<lambda>url.
           bnd (urlopen_read E url None) (\<lambda>answer.
             ret (PyBytes answer))))"

definition get_metadata :: "env \<Rightarrow> pystr option \<Rightarrow> pyval io" where
  "get_metadata E l =
     bnd (reads (\<lambda>s. metadata_url (service s))) (\<lambda>mu.
       case mu of
         None \<Rightarrow> thn (emit (Print (str ''No metadata URL available''))) (ret PyNone)
       | Some u \<Rightarrow>
           bnd (add_str (u @ str ''?lsid='') l) (\<lambda>url.
           bnd (urlopen_read E url None) (\<lambda>answer.
             ret (PyBytes answer))))"

section \<open>Resolver\<close>

definition set_lsid :: "pystr \<Rightarrow> unit io" where
  "set_lsid l = modify (\<lambda>s. s\<lparr>lsid := Some l\<rparr>)"





text \<open>A process right after \<open>Resolver()\<close>, at time \<open>t\<close>, with the cache files \<open>fs\<close>.\<close>

definition new_proc :: "real \<Rightarrow> (pystr \<rightharpoonup> cache_file) \<Rightarrow> proc" where
  "new_proc t fs =
     \<lparr>lsid = None,
      authority = \<lparr>url_part = None, service_url = None, service_port = None, authority_url = None\<rparr>,
      service = \<lparr>data_url = None, metadata_url = None\<rparr>,
      cache_cls_instance = None, next_id = 0, files = fs, now = t, out = []\<rparr>"

section \<open>The LSID grammar in words\<close>

text \<open>
  The grammar as the specification words it: a case-insensitive \<open>urn:lsid\<close> prefix,
  then three or four fields separated by colons, each non-empty and over the class
  \<^verbatim>\<open>[A-Za-z0-9()+,\-.=@;$"!*'_]\<close>.
\<close>

definition ci_eq :: "pystr \<Rightarrow> string \<Rightarrow> bool" where
  "ci_eq u w = list_all2 (\<lambda>c k. c = cp k \<or> c + 32 = cp k) u w"

definition spec_char :: "nat \<Rightarrow> bool" where
  "spec_char c = (ascii_alnum c \<or> one_of ''()+,-.=@;$!*_'' c \<or> c = 34 \<or> c = 39)"

definition spec_segment :: "pystr \<Rightarrow> bool" where
  "spec_segment a = (a \<noteq> [] \<and> list_all spec_char a)"

definition spec_grammar :: "pystr \<Rightarrow> bool" where
  "spec_grammar s =
     (case split_on colon s of
        [u, l, a, n, ob] \<Rightarrow>
          ci_eq u ''urn'' \<and> ci_eq l ''lsid'' \<and> spec_segment a \<and> spec_segment n \<and> spec_segment ob
      | [u, l, a, n, ob, r] \<Rightarrow>
          ci_eq u ''urn'' \<and> ci_eq l ''lsid'' \<and> spec_segment a \<and> spec_segment n \<and> spec_segment ob
          \<and> spec_segment r
      | _ \<Rightarrow> False)"

text \<open>
  The same grammar with the fields that the pattern of the program accepts: a field
  starts with an ASCII letter or digit and goes on over \<^verbatim>\<open>[\w()+,\-.=@;$"!*']\<close>.
\<close>

definition lsid_segment :: "(nat \<Rightarrow> bool) \<Rightarrow> pystr \<Rightarrow> bool" where
  "lsid_segment uw a = (a \<noteq> [] \<and> ascii_alnum (hd a) \<and> list_all (seg_char uw) (tl a))"

definition lsid_grammar :: "(nat \<Rightarrow> bool) \<Rightarrow> pystr \<Rightarrow> bool" where
  "lsid_grammar uw s =
     (case split_on colon s of
        [u, l, a, n, ob] \<Rightarrow>
          ci_eq u ''urn'' \<and> ci_eq l ''lsid'' \<and> lsid_segment uw a \<and> lsid_segment uw n
          \<and> lsid_segment uw ob
      | [u, l, a, n, ob, r] \<Rightarrow>
          ci_eq u ''urn'' \<and> ci_eq l ''lsid'' \<and> lsid_segment uw a \<and> lsid_segment uw n
          \<and> lsid_segment uw ob \<and> lsid_segment uw r
      | _ \<Rightarrow> False)"

text \<open>\<open>d.join(xs)\<close>, the inverse of \<open>split\<close>.\<close>

fun join :: "nat \<Rightarrow> pystr list \<Rightarrow> pystr" where
  "join d [] = []"
| "join d [x] = x"
| "join d (x # y # ys) = x @ d # join d (y # ys)"

section \<open>Example documents and an example environment\<close>

text \<open>
  An authority description with one authority port, and a service description with a
  data port and a metadata port, as the WSDL files of the test suite have them.
\<close>

definition port_elem :: "string \<Rightarrow> element list \<Rightarrow> element" where
  "port_elem binding cs = Element wsdl_ns (str ''port'') [(str ''binding'', str binding)] cs"

definition address_elem :: "string \<Rightarrow> element" where
  "address_elem loc = Element http_ns (str ''address'') [(str ''location'', str loc)] []"

definition definitions_elem :: "element list \<Rightarrow> element" where
  "definitions_elem ports =
     Element wsdl_ns (str ''definitions'') [] [Element wsdl_ns (str ''service'') [] ports]"

definition authority_doc :: element where
  "authority_doc = definitions_elem
     [port_elem ''tns:LSIDAuthorityHTTPBinding'' [address_elem ''https://lsid.nmbe.ch:443'']]"

definition service_doc :: element where
  "service_doc = definitions_elem
     [port_elem ''tns:LSIDDataHTTPBinding'' [address_elem ''https://lsid.nmbe.ch/data''],
      port_elem ''tns:LSIDMetadataHTTPBinding'' [address_elem ''https://lsid.nmbe.ch/meta'']]"

text \<open>An authority port that has no address child.\<close>

definition bare_port_doc :: element where
  "bare_port_doc = definitions_elem [port_elem ''tns:LSIDAuthorityHTTPBinding'' []]"

text \<open>A service description whose data address has no \<open>location\<close> attribute, beside a
  well-formed metadata port.\<close>

definition no_location_doc :: element where
  "no_location_doc = definitions_elem
     [port_elem ''tns:LSIDDataHTTPBinding'' [Element http_ns (str ''address'') [] []],
      port_elem ''tns:LSIDMetadataHTTPBinding'' [address_elem ''https://lsid.nmbe.ch/meta'']]"

definition demo_lsid :: pystr where
  "demo_lsid = str ''urn:lsid:nmbe.ch:spidersp:021946''"

text \<open>
  An environment for \<open>demo_lsid\<close>: one SRV record, the two descriptions served (their
  bodies abbreviated to a tag that the parser maps to the documents above), a data
  endpoint that refuses the connection and a metadata endpoint that answers. Local time
  is UTC.
\<close>

definition demo_env :: env where
  "demo_env =
     \<lparr>unicode_alnum = (\<lambda>c. False),
      srv_lookup = (\<lambda>q. if q = str ''_lsid._tcp.nmbe.ch''
                         then Inr [\<lparr>target = str ''lsid.nmbe.ch.'', port = 443\<rparr>]
                         else Inl (LibraryError (str ''NXDOMAIN''))),
      http_get = (\<lambda>u.
         if u = str ''https://lsid.nmbe.ch:443/authority/'' then Inr ''<authority/>''
         else if u = str ''https://lsid.nmbe.ch:443/authority/?lsid='' @ demo_lsid
           then Inr ''<service/>''
         else if u = str ''https://lsid.nmbe.ch/meta?lsid='' @ demo_lsid then Inr ''metadata''
         else Inl (LibraryError (str ''URLError''))),
      fromstring = (\<lambda>b.
         if b = ''<authority/>'' then Inr authority_doc
         else if b = ''<service/>'' then Inr service_doc
         else Inl (LibraryError (str ''XMLSyntaxError''))),
      utcoffset = (\<lambda>t. 0),
      date_error = (\<lambda>d. ValueError)\<rparr>"

text \<open>A cache directory that holds an empty, just written \<open>authority.wsdl\<close>.\<close>

definition empty_entry_files :: "pystr \<rightharpoonup> cache_file" where
  "empty_entry_files =
     [str ''cache/nmbe.ch/authority.wsdl'' \<mapsto> \<lparr>content = [], mtime = 0\<rparr>]"

text \<open>A process whose authority object has been through \<open>get_authority_part\<close>.\<close>

definition located_proc :: "(pystr \<rightharpoonup> cache_file) \<Rightarrow> proc" where
  "located_proc fs =
     (new_proc 0 fs)\<lparr>lsid := Some demo_lsid,
       authority := \<lparr>url_part = Some (str ''nmbe.ch''), service_url = Some (str ''lsid.nmbe.ch''),
                     service_port = Some (str ''443''), authority_url = None\<rparr>\<rparr>"

text \<open>A process whose service object holds both endpoints of \<open>service_doc\<close>.\<close>

definition endpoints_proc :: proc where
  "endpoints_proc =
     (located_proc Map.empty)\<lparr>service :=
        \<lparr>data_url = Some (str ''https://lsid.nmbe.ch/data''),
         metadata_url = Some (str ''https://lsid.nmbe.ch/meta'')\<rparr>\<rparr>"

section \<open>Notions used to state the properties\<close>

text \<open>The HTTP requests among the events of a run.\<close>

fun is_http :: "event \<Rightarrow> bool" where
  "is_http (HttpGet u t) = True"
| "is_http e = False"

definition http_events :: "event list \<Rightarrow> event list" where
  "http_events es = filter is_http es"

text \<open>
  Whether a file dated \<open>d\<close> is still valid at clock time \<open>t\<close>, or the exception that
  the comparison of the two dates raises.
\<close>

definition expiration_at :: "env \<Rightarrow> real \<Rightarrow> real \<Rightarrow> exc + bool" where
  "expiration_at E t d =
     (if \<not> (DATETIME_MIN \<le> floor_us t \<and> floor_us t < DATETIME_END)
        then Inl (date_error E (floor_us t))
      else if \<not> DATETIME_MIN \<le> floor_us t - 172800 then Inl OverflowError
      else if \<not> (DATETIME_MIN \<le> round_us d + utcoffset E (of_int \<lfloor>round_us d\<rfloor>)
                 \<and> round_us d + utcoffset E (of_int \<lfloor>round_us d\<rfloor>) < DATETIME_END)
        then Inl (date_error E (round_us d + utcoffset E (of_int \<lfloor>round_us d\<rfloor>)))
      else Inr (floor_us t - 172800 \<le> round_us d + utcoffset E (of_int \<lfloor>round_us d\<rfloor>)))"

text \<open>The bytes that the cache holds under a path and that have not expired, or the
  exception of the lookup.\<close>

definition fresh_entry :: "env \<Rightarrow> proc \<Rightarrow> pystr \<Rightarrow> exc + bytes option" where
  "fresh_entry E s key =
     (case files s key of
        None \<Rightarrow> Inr None
      | Some f \<Rightarrow>
          (case expiration_at E (now s) (mtime f) of
             Inl e \<Rightarrow> Inl e
           | Inr valid \<Rightarrow> Inr (if valid then Some (content f) else None)))"

text \<open>A clock between 1970 and the last day but one of the year 9999, and a time that is
  a whole number of microseconds.\<close>

definition datetime_clock :: "real \<Rightarrow> bool" where
  "datetime_clock t = (0 \<le> t \<and> t \<le> 253402214399)"


text \<open>
  Cache-first retrieval of a description by a statement \<open>load\<close>, for the cache path
  \<open>key\<close> and the source \<open>url\<close>. On a fresh, non-empty entry the document is parsed from
  the cached bytes, with no request and no write. When the lookup raises, so does the
  statement, with no request and no write. Otherwise there is exactly one
  request, to \<open>url\<close> with a timeout of 120 seconds; its failure, or that of the parser, is
  the failure of the statement and nothing is stored; on success the body is stored
  under \<open>key\<close> and its document returned.
\<close>

definition cache_first :: "env \<Rightarrow> element io \<Rightarrow> pystr \<Rightarrow> pystr \<Rightarrow> proc \<Rightarrow> bool" where
  "cache_first E load key url s =
     (case fresh_entry E s key of
        Inr (Some (c # cs)) \<Rightarrow>
          fst (load s) = fromstring E (c # cs)
          \<and> http_events (out (snd (load s))) = http_events (out s)
          \<and> files (snd (load s)) = files s
      | Inl e \<Rightarrow>
          fst (load s) = Inl e
          \<and> http_events (out (snd (load s))) = http_events (out s)
          \<and> files (snd (load s)) = files s
      | Inr _ \<Rightarrow>
          http_events (out (snd (load s))) = http_events (out s) @ [HttpGet url (Some 120)]
          \<and> (case http_get E url of
                Inl e \<Rightarrow> fst (load s) = Inl e \<and> files (snd (load s)) = files s
              | Inr body \<Rightarrow>
                  (case fromstring E body of
                     Inl e \<Rightarrow> fst (load s) = Inl e \<and> files (snd (load s)) = files s
                   | Inr doc \<Rightarrow>
                       fst (load s) = Inr doc
                       \<and> files (snd (load s)) =
                           (files s)(key \<mapsto> \<lparr>content = body, mtime = now s\<rparr>))))"

text \<open>The host kept for an SRV target, and the line printed for a record.\<close>

definition strip_dot :: "pystr \<Rightarrow> pystr" where
  "strip_dot t = (if last t = cp CHR ''.'' then butlast t else t)"

definition srv_line :: "srv \<Rightarrow> event" where
  "srv_line d =
     Print (str ''Service target: '' @ strip_dot (target d) @ str '' | Port: '' @ str_nat (port d))"

text \<open>What one round of the loop of \<open>set_service_url\<close> leaves, for a record with a
  non-empty target text.\<close>

definition srv_step :: "proc \<Rightarrow> srv \<Rightarrow> proc" where
  "srv_step s d =
     s\<lparr>authority := (authority s)\<lparr>service_url := Some (strip_dot (target d)),
                                    service_port := Some (str_nat (port d))\<rparr>,
       out := out s @ [srv_line d]\<rparr>"

text \<open>The state once \<open>Cache()\<close> has been called: the instance exists.\<close>

definition with_cache :: "proc \<Rightarrow> proc" where
  "with_cache s = snd (cache_instance s)"

text \<open>More example inputs: a cache that holds a fresh authority description; the
  process after the discovery for \<open>demo_lsid\<close> in \<open>demo_env\<close>; an environment
  whose data endpoint answers and whose metadata endpoint refuses; an environment whose
  only SRV record has the root as target.\<close>

definition cached_files :: "pystr \<rightharpoonup> cache_file" where
  "cached_files =
     [str ''cache/nmbe.ch/authority.wsdl'' \<mapsto> \<lparr>content = ''<authority/>'', mtime = 0\<rparr>]"



definition no_service_env :: env where
  "no_service_env = demo_env\<lparr>srv_lookup := (\<lambda>q. Inr [\<lparr>target = str ''.'', port = 0\<rparr>])\<rparr>"

section \<open>Properties of the matcher\<close>

text \<open>The derivative matcher decides membership in the language of the expression.\<close>


lemma nullable_lang: "nullable r \<longleftrightarrow> [] \<in> lang r"
  by (induction r) (auto simp: conc_def intro: star.intros)

lemma conc_Cons:
  "c # s \<in> conc A B \<longleftrightarrow> (\<exists>u v. s = u @ v \<and> c # u \<in> A \<and> v \<in> B) \<or> ([] \<in> A \<and> c # s \<in> B)"
  unfolding conc_def by (auto simp: Cons_eq_append_conv) 

lemma star_Cons_D:
  "w \<in> star A \<Longrightarrow> w = c # s \<Longrightarrow> \<exists>u v. s = u @ v \<and> c # u \<in> A \<and> v \<in> star A"
proof (induction arbitrary: s rule: star.induct)
  case star_nil
  then show ?case by simp
next
  case (star_app u v)
  show ?case
  proof (cases u)
    case Nil
    with star_app show ?thesis by simp
  next
    case (Cons a u')
    with star_app.prems have "s = u' @ v" "a = c" by simp_all
    with Cons star_app.hyps show ?thesis by blast
  qed
qed

lemma star_Cons:
  "c # s \<in> star A \<longleftrightarrow> (\<exists>u v. s = u @ v \<and> c # u \<in> A \<and> v \<in> star A)"
proof
  assume "c # s \<in> star A"
  then show "\<exists>u v. s = u @ v \<and> c # u \<in> A \<and> v \<in> star A"
    using star_Cons_D by blast
next
  assume "\<exists>u v. s = u @ v \<and> c # u \<in> A \<and> v \<in> star A"
  then obtain u v where "s = u @ v" "c # u \<in> A" "v \<in> star A" by blast
  then show "c # s \<in> star A"
    using star_app [of "c # u" A v] by simp
qed

lemma lang_deriv: "s \<in> lang (deriv c r) \<longleftrightarrow> c # s \<in> lang r"
proof (induction r arbitrary: s)
  case (Seq r1 r2)
  then show ?case
    by (auto simp: conc_Cons nullable_lang) (auto simp: conc_def)
next
  case (Star r)
  then show ?case
    by (auto simp: star_Cons) (auto simp: conc_def)
qed auto

lemma matches_lang: "matches r s \<longleftrightarrow> s \<in> lang r"
  by (induction s arbitrary: r) (auto simp: nullable_lang lang_deriv)

text \<open>\<open>split\<close> and \<open>join\<close> are inverse; the parts hold no separator.\<close>


lemma split_on_nonempty: "split_on d s \<noteq> []"
  by (induction s) (auto split: list.splits)

lemma join_split_on: "join d (split_on d s) = s"
proof (induction s)
  case Nil
  show ?case by simp
next
  case (Cons c s)
  obtain w ws where ws: "split_on d s = w # ws"
    using split_on_nonempty [of d s] by (cases "split_on d s") auto
  with Cons show ?case
    by (cases ws) auto
qed

lemma split_on_no_sep: "d \<notin> set a \<Longrightarrow> split_on d a = [a]"
  by (induction a) auto

lemma split_on_append: "d \<notin> set a \<Longrightarrow> split_on d (a @ d # t) = a # split_on d t"
  by (induction a) auto

lemma split_on_parts: "w \<in> set (split_on d s) \<Longrightarrow> d \<notin> set w"
proof (induction s arbitrary: w)
  case Nil
  then show ?case by simp
next
  case (Cons c s)
  obtain x xs where xs: "split_on d s = x # xs"
    using split_on_nonempty [of d s] by (cases "split_on d s") auto
  with Cons show ?case
    by (auto split: if_splits)
qed

lemma star_cls: "s \<in> star {[c] | c. p c} \<longleftrightarrow> list_all p s"
proof (induction s)
  case Nil
  show ?case by (simp add: star_nil)
next
  case (Cons a s)
  show ?case
  proof
    assume "a # s \<in> star {[c] |c. p c}"
    then obtain u v where "s = u @ v" "a # u \<in> {[c] |c. p c}" "v \<in> star {[c] |c. p c}"
      unfolding star_Cons by blast
    with Cons show "list_all p (a # s)" by auto
  next
    assume "list_all p (a # s)"
    with Cons have "p a" "s \<in> star {[c] |c. p c}" by auto
    then show "a # s \<in> star {[c] |c. p c}"
      using star_app [of "[a]" "{[c] |c. p c}" s] by auto
  qed
qed

lemma conc_cls: "s \<in> conc {[c] | c. p c} L \<longleftrightarrow> (\<exists>c t. s = c # t \<and> p c \<and> t \<in> L)"
proof
  assume "s \<in> conc {[c] | c. p c} L"
  then show "\<exists>c t. s = c # t \<and> p c \<and> t \<in> L"
    by (auto simp: conc_def)
next
  assume "\<exists>c t. s = c # t \<and> p c \<and> t \<in> L"
  then obtain c t where "s = [c] @ t" "p c" "t \<in> L" by auto
  then show "s \<in> conc {[c] | c. p c} L"
    unfolding conc_def by blast
qed

lemma lang_segment: "a \<in> lang (segment_rx uw) \<longleftrightarrow> lsid_segment uw a"
  by (cases a) (auto simp: segment_rx_def lsid_segment_def conc_cls star_cls)

lemma seg_char_colon: "\<not> seg_char uw colon" "\<not> ascii_alnum colon"
  by (simp_all add: seg_char_def word_char_def ascii_alnum_def colon_def cp_def one_of_def str_def)

lemma segment_no_colon: "lsid_segment uw a \<Longrightarrow> colon \<notin> set a"
  by (cases a) (auto simp: lsid_segment_def list_all_iff seg_char_colon)

text \<open>The language of the LSID pattern, field by field.\<close>


lemma conc_segment:
  "s \<in> conc (lang (segment_rx uw)) L \<longleftrightarrow> (\<exists>a t. s = a @ t \<and> lsid_segment uw a \<and> t \<in> L)"
  unfolding conc_def lang_segment by blast

lemma lang_colon: "lang (Cls (\<lambda>c. c = colon)) = {[colon]}"
  by auto

lemma conc_colon: "s \<in> conc {[colon]} L \<longleftrightarrow> (\<exists>t. s = colon # t \<and> t \<in> L)"
  by (auto simp: conc_def)

lemma conc_eps: "conc L {[]} = L"
  by (auto simp: conc_def)

lemma one_of_2: "one_of [x, y] c \<longleftrightarrow> c = cp x \<or> c = cp y"
  by (auto simp: one_of_def str_def)

lemma lang_opt_segment:
  "t \<in> lang (Seq (Alt (Seq (Cls (\<lambda>c. c = colon)) (segment_rx uw)) Eps) Eps)
     \<longleftrightarrow> (t = [] \<or> (\<exists>r. t = colon # r \<and> lsid_segment uw r))"
  by (auto simp: conc_eps conc_colon lang_segment)

lemma lang_prefix:
  "s \<in> lang (Seq (Cls (one_of ''uU'')) (Seq (Cls (one_of ''rR'')) (Seq (Cls (one_of ''nN''))
       (Seq (Cls (\<lambda>c. c = colon)) (Seq (Cls (one_of ''lL'')) (Seq (Cls (one_of ''sS''))
       (Seq (Cls (one_of ''iI'')) (Seq (Cls (one_of ''dD'')) (Seq (Cls (\<lambda>c. c = colon)) R)))))))))
   \<longleftrightarrow> (\<exists>u l t. s = u @ colon # l @ colon # t \<and> ci_eq u ''urn'' \<and> ci_eq l ''lsid'' \<and> t \<in> lang R)"
  (is "?L \<longleftrightarrow> ?R")
proof
  assume ?L
  then obtain c1 c2 c3 c4 c5 c6 c7 t where
    s: "s = [c1, c2, c3] @ colon # [c4, c5, c6, c7] @ colon # t" and
    c: "one_of ''uU'' c1" "one_of ''rR'' c2" "one_of ''nN'' c3"
       "one_of ''lL'' c4" "one_of ''sS'' c5" "one_of ''iI'' c6" "one_of ''dD'' c7" and
    t: "t \<in> lang R"
    by (auto simp: conc_cls conc_colon)
  from c have "ci_eq [c1, c2, c3] ''urn''" "ci_eq [c4, c5, c6, c7] ''lsid''"
    by (auto simp: ci_eq_def one_of_2 cp_def)
  with s t show ?R by blast
next
  assume ?R
  then obtain u l t where s: "s = u @ colon # l @ colon # t" and
    u: "ci_eq u ''urn''" and l: "ci_eq l ''lsid''" and t: "t \<in> lang R"
    by blast
  from u obtain c1 c2 c3 where u': "u = [c1, c2, c3]"
    "one_of ''uU'' c1" "one_of ''rR'' c2" "one_of ''nN'' c3"
    by (auto simp: ci_eq_def list_all2_Cons2 one_of_2 cp_def)
  from l obtain c4 c5 c6 c7 where l': "l = [c4, c5, c6, c7]"
    "one_of ''lL'' c4" "one_of ''sS'' c5" "one_of ''iI'' c6" "one_of ''dD'' c7"
    by (auto simp: ci_eq_def list_all2_Cons2 one_of_2 cp_def)
  from s t u' l' show ?L
    by (simp add: conc_cls conc_colon)
qed

lemma lang_fields:
  "t \<in> lang (Seq (segment_rx uw) (Seq (Cls (\<lambda>c. c = colon)) (Seq (segment_rx uw)
       (Seq (Cls (\<lambda>c. c = colon)) (Seq (segment_rx uw)
       (Seq (Alt (Seq (Cls (\<lambda>c. c = colon)) (segment_rx uw)) Eps) Eps))))))
   \<longleftrightarrow> (\<exists>a n ob r. t = a @ colon # n @ colon # ob @ r
        \<and> lsid_segment uw a \<and> lsid_segment uw n \<and> lsid_segment uw ob
        \<and> (r = [] \<or> (\<exists>x. r = colon # x \<and> lsid_segment uw x)))"
  (is "?L \<longleftrightarrow> ?R")
proof
  assume ?L
  then obtain a t1 where 1: "t = a @ t1" "lsid_segment uw a"
    "t1 \<in> lang (Seq (Cls (\<lambda>c. c = colon)) (Seq (segment_rx uw)
       (Seq (Cls (\<lambda>c. c = colon)) (Seq (segment_rx uw)
       (Seq (Alt (Seq (Cls (\<lambda>c. c = colon)) (segment_rx uw)) Eps) Eps)))))"
    unfolding lang.simps(4) [of "segment_rx uw"] conc_segment by blast
  then obtain n t2 where 2: "t1 = colon # n @ t2" "lsid_segment uw n"
    "t2 \<in> lang (Seq (Cls (\<lambda>c. c = colon)) (Seq (segment_rx uw)
       (Seq (Alt (Seq (Cls (\<lambda>c. c = colon)) (segment_rx uw)) Eps) Eps)))"
    unfolding lang.simps(4) [of "Cls (\<lambda>c. c = colon)"] lang.simps(4) [of "segment_rx uw"]
      lang_colon conc_colon conc_segment by blast
  then obtain ob r where 3: "t2 = colon # ob @ r" "lsid_segment uw ob"
    "r \<in> lang (Seq (Alt (Seq (Cls (\<lambda>c. c = colon)) (segment_rx uw)) Eps) Eps)"
    unfolding lang.simps(4) [of "Cls (\<lambda>c. c = colon)"] lang.simps(4) [of "segment_rx uw"]
      lang_colon conc_colon conc_segment by blast
  have "t = a @ colon # n @ colon # ob @ r"
    using 1(1) 2(1) 3(1) by simp
  moreover have "r = [] \<or> (\<exists>x. r = colon # x \<and> lsid_segment uw x)"
    using 3(3) unfolding lang_opt_segment .
  ultimately show ?R
    using 1(2) 2(2) 3(2) by blast
next
  assume ?R
  then obtain a n ob r where t: "t = a @ colon # n @ colon # ob @ r" and
    seg: "lsid_segment uw a" "lsid_segment uw n" "lsid_segment uw ob" and
    r: "r = [] \<or> (\<exists>x. r = colon # x \<and> lsid_segment uw x)"
    by blast
  from r have "r \<in> lang (Seq (Alt (Seq (Cls (\<lambda>c. c = colon)) (segment_rx uw)) Eps) Eps)"
    unfolding lang_opt_segment .
  with seg(3) have "ob @ r \<in> lang (Seq (segment_rx uw)
       (Seq (Alt (Seq (Cls (\<lambda>c. c = colon)) (segment_rx uw)) Eps) Eps))"
    unfolding lang.simps(4) [of "segment_rx uw"] conc_segment by blast
  then have "colon # ob @ r \<in> lang (Seq (Cls (\<lambda>c. c = colon)) (Seq (segment_rx uw)
       (Seq (Alt (Seq (Cls (\<lambda>c. c = colon)) (segment_rx uw)) Eps) Eps)))"
    unfolding lang.simps(4) [of "Cls (\<lambda>c. c = colon)"] lang_colon conc_colon by blast
  with seg(2) have "n @ colon # ob @ r \<in> lang (Seq (segment_rx uw) (Seq (Cls (\<lambda>c. c = colon))
       (Seq (segment_rx uw) (Seq (Alt (Seq (Cls (\<lambda>c. c = colon)) (segment_rx uw)) Eps) Eps))))"
    unfolding lang.simps(4) [of "segment_rx uw"] conc_segment by blast
  then have "colon # n @ colon # ob @ r \<in> lang (Seq (Cls (\<lambda>c. c = colon)) (Seq (segment_rx uw)
       (Seq (Cls (\<lambda>c. c = colon)) (Seq (segment_rx uw)
       (Seq (Alt (Seq (Cls (\<lambda>c. c = colon)) (segment_rx uw)) Eps) Eps)))))"
    unfolding lang.simps(4) [of "Cls (\<lambda>c. c = colon)"] lang_colon conc_colon by blast
  with seg(1) t show ?L
    unfolding lang.simps(4) [of "segment_rx uw"] conc_segment by blast
qed

lemma lang_lsid_pattern:
  "s \<in> lang (lsid_pattern uw) \<longleftrightarrow>
     (\<exists>u l a n ob r. s = u @ colon # l @ colon # a @ colon # n @ colon # ob @ r
        \<and> ci_eq u ''urn'' \<and> ci_eq l ''lsid''
        \<and> lsid_segment uw a \<and> lsid_segment uw n \<and> lsid_segment uw ob
        \<and> (r = [] \<or> (\<exists>x. r = colon # x \<and> lsid_segment uw x)))"
  unfolding lsid_pattern_def seq_list.simps lang_prefix lang_fields
  by blast


lemma ci_eq_no_colon: "ci_eq u ''urn'' \<Longrightarrow> colon \<notin> set u" "ci_eq l ''lsid'' \<Longrightarrow> colon \<notin> set l"
  by (auto simp: ci_eq_def list_all2_Cons2 cp_def colon_def)

lemma split_on_fields5:
  assumes "colon \<notin> set u" "colon \<notin> set l" "colon \<notin> set a" "colon \<notin> set n" "colon \<notin> set ob"
  shows "split_on colon (u @ colon # l @ colon # a @ colon # n @ colon # ob) = [u, l, a, n, ob]"
  using assms by (simp add: split_on_append split_on_no_sep)

lemma split_on_fields6:
  assumes "colon \<notin> set u" "colon \<notin> set l" "colon \<notin> set a" "colon \<notin> set n" "colon \<notin> set ob"
    "colon \<notin> set x"
  shows "split_on colon (u @ colon # l @ colon # a @ colon # n @ colon # ob @ colon # x)
           = [u, l, a, n, ob, x]"
  using assms by (simp add: split_on_append split_on_no_sep)

lemma lang_pattern_grammar: "s \<in> lang (lsid_pattern uw) \<longleftrightarrow> lsid_grammar uw s"
proof
  assume "s \<in> lang (lsid_pattern uw)"
  then obtain u l a n ob r where
    s: "s = u @ colon # l @ colon # a @ colon # n @ colon # ob @ r" and
    ul: "ci_eq u ''urn''" "ci_eq l ''lsid''" and
    seg: "lsid_segment uw a" "lsid_segment uw n" "lsid_segment uw ob" and
    r: "r = [] \<or> (\<exists>x. r = colon # x \<and> lsid_segment uw x)"
    unfolding lang_lsid_pattern by blast
  note nc = ci_eq_no_colon(1) [OF ul(1)] ci_eq_no_colon(2) [OF ul(2)]
    segment_no_colon [OF seg(1)] segment_no_colon [OF seg(2)] segment_no_colon [OF seg(3)]
  from r show "lsid_grammar uw s"
  proof
    assume "r = []"
    with s have "split_on colon s = [u, l, a, n, ob]"
      using split_on_fields5 [OF nc] by simp
    with ul seg show ?thesis
      by (simp add: lsid_grammar_def)
  next
    assume "\<exists>x. r = colon # x \<and> lsid_segment uw x"
    then obtain x where x: "r = colon # x" "lsid_segment uw x" by blast
    with s have "split_on colon s = [u, l, a, n, ob, x]"
      using split_on_fields6 [OF nc segment_no_colon [OF x(2)]] by simp
    with ul seg x show ?thesis
      by (simp add: lsid_grammar_def)
  qed
next
  assume g: "lsid_grammar uw s"
  have j: "s = join colon (split_on colon s)"
    by (simp add: join_split_on)
  from g consider
    (five) u l a n ob where "split_on colon s = [u, l, a, n, ob]" "ci_eq u ''urn''" "ci_eq l ''lsid''"
      "lsid_segment uw a" "lsid_segment uw n" "lsid_segment uw ob"
  | (six) u l a n ob x where "split_on colon s = [u, l, a, n, ob, x]" "ci_eq u ''urn''"
      "ci_eq l ''lsid''" "lsid_segment uw a" "lsid_segment uw n" "lsid_segment uw ob"
      "lsid_segment uw x"
    unfolding lsid_grammar_def by (auto split: list.splits)
  then show "s \<in> lang (lsid_pattern uw)"
  proof cases
    case five
    from j five(1) have "s = u @ colon # l @ colon # a @ colon # n @ colon # ob @ []"
      by simp
    with five(2-) show ?thesis
      unfolding lang_lsid_pattern by blast
  next
    case six
    from j six(1) have "s = u @ colon # l @ colon # a @ colon # n @ colon # ob @ colon # x"
      by simp
    with six(2-) show ?thesis
      unfolding lang_lsid_pattern by blast
  qed
qed

lemma matches_lsid_pattern: "matches (lsid_pattern uw) s \<longleftrightarrow> lsid_grammar uw s"
  by (simp add: matches_lang lang_pattern_grammar)

section \<open>Validation\<close>

lemmas io_defs = ret_def throw_def bnd_def thn_def try_except_def lift_def emit_def modify_def
  reads_def need_str_def add_str_def unpack1_def set_authority_def set_service_def

lemmas str_defs = str_def cp_def colon_def newline_def

lemma re_match_lsid_pattern:
  "s = [] \<or> last s \<noteq> newline \<Longrightarrow>
   re_match_anchored (lsid_pattern uw) s \<longleftrightarrow> lsid_grammar uw s"
  by (auto simp: re_match_anchored_def matches_lsid_pattern)

lemma demo_lsid_grammar: "lsid_grammar uw demo_lsid"
  by (simp add: demo_lsid_def lsid_grammar_def lsid_segment_def ci_eq_def ascii_alnum_def
      seg_char_def word_char_def one_of_def str_defs)

text \<open>
  C1, as the program has it. For every stored LSID string that does not end in a newline,
  \<open>validate_lsid\<close> returns \<open>True\<close> exactly when the string is \<open>urn:lsid\<close> in any case
  followed by three or four colon-separated fields, each starting with an ASCII letter or
  digit and continuing over the class of the pattern; otherwise it raises
  \<open>ValidationError\<close>. The stored string, the files and the network are untouched: the
  state changes by one printed line on success and not at all on failure.
\<close>

theorem validate_lsid_grammar:
  assumes "lsid p = Some s" and "s = [] \<or> last s \<noteq> newline"
  shows "validate_lsid E p =
           (if lsid_grammar (unicode_alnum E) s
            then (Inr True, p\<lparr>out := out p @ [Print (str ''This is a valid LSID'')]\<rparr>)
            else (Inl (ValidationError (str ''Error: LSID is not well formed!'')), p))"
  using assms
  by (simp add: validate_lsid_def re_match_lsid_pattern io_defs)

theorem validate_lsid_grammar_witness:
  "lsid ((new_proc 0 Map.empty)\<lparr>lsid := Some demo_lsid\<rparr>) = Some demo_lsid
   \<and> last demo_lsid \<noteq> newline
   \<and> validate_lsid demo_env ((new_proc 0 Map.empty)\<lparr>lsid := Some demo_lsid\<rparr>) =
       (Inr True, (new_proc 0 Map.empty)\<lparr>lsid := Some demo_lsid,
                    out := [Print (str ''This is a valid LSID'')]\<rparr>)"
proof -
  have n: "last demo_lsid \<noteq> newline"
    by (simp add: demo_lsid_def str_defs)
  have l: "lsid ((new_proc 0 Map.empty)\<lparr>lsid := Some demo_lsid\<rparr>) = Some demo_lsid"
    by simp
  show ?thesis
    using validate_lsid_grammar [OF l disjI2 [OF n], of demo_env] n
    by (simp add: demo_lsid_grammar new_proc_def)
qed

text \<open>
  A string of the grammar as the specification words it (non-empty fields over the
  allowed class) that the program rejects: the authority field starts with a dot.
\<close>

theorem validate_lsid_leading_dot_counterexample:
  "spec_grammar (str ''urn:lsid:.a:b:c'')
   \<and> fst (validate_lsid demo_env ((new_proc 0 Map.empty)\<lparr>lsid := Some (str ''urn:lsid:.a:b:c'')\<rparr>))
       = Inl (ValidationError (str ''Error: LSID is not well formed!''))"
proof -
  have "spec_grammar (str ''urn:lsid:.a:b:c'')"
    by (simp add: spec_grammar_def spec_segment_def spec_char_def ci_eq_def ascii_alnum_def
        one_of_def str_defs)
  moreover have "\<not> lsid_grammar uw (str ''urn:lsid:.a:b:c'')" for uw
    by (simp add: lsid_grammar_def lsid_segment_def ci_eq_def ascii_alnum_def str_defs)
  moreover have "last (str ''urn:lsid:.a:b:c'') \<noteq> newline"
    by (simp add: str_defs)
  ultimately show ?thesis
    by (simp add: validate_lsid_def re_match_lsid_pattern io_defs new_proc_def)
qed

section \<open>The cache\<close>

text \<open>Cutting and rounding to the microsecond stay within one microsecond of the time.\<close>

lemma floor_us_bounds: "floor_us t \<le> t" "t - 1 / 1000000 < floor_us t"
  unfolding floor_us_def by (simp_all add: field_simps) linarith+

lemma round_half_even_bounds:
  "of_int (round_half_even y) \<le> y + 1 / 2" "y - 1 / 2 \<le> of_int (round_half_even y)"
  "\<lfloor>y\<rfloor> \<le> round_half_even y"
  unfolding round_half_even_def by (auto simp: field_simps) linarith+

lemma round_us_bounds: "round_us t \<le> t + 1 / 2000000" "t - 1 / 2000000 \<le> round_us t"
  "floor_us t \<le> round_us t"
  using round_half_even_bounds [of "t * 1000000"]
  unfolding round_us_def floor_us_def by (simp_all add: field_simps)



lemma get_cache_expiration_eq:
  "get_cache_expiration E c d s = (expiration_at E (now s) d, s)"
  by (simp add: get_cache_expiration_def expiration_at_def utcnow_def minus_seconds_def
      fromtimestamp_local_def new_datetime_def CACHE_TIME_def io_defs)


lemma expiration_at_once:
  assumes "\<forall>x. - 172800 \<le> utcoffset E x \<and> utcoffset E x \<le> 86400" and "datetime_clock t"
  shows "expiration_at E t t = Inr True"
proof -
  let ?o = "utcoffset E (of_int \<lfloor>round_us t\<rfloor>)"
  from assms(1) have o: "- 172800 \<le> ?o" "?o \<le> 86400" by simp_all
  from assms(2) have f: "- 1 < floor_us t" "floor_us t \<le> 253402214399"
    using floor_us_bounds [of t] by (simp_all add: datetime_clock_def)
  from assms(2) have r: "- 1 < round_us t" "round_us t < 253402214400" "floor_us t \<le> round_us t"
    using round_us_bounds [of t] by (simp_all add: datetime_clock_def)
  from o f r show ?thesis
    by (simp add: expiration_at_def DATETIME_MIN_def DATETIME_END_def)
qed

lemma check_cache_file_fresh:
  "check_cache_file E c (Some p) n s =
     (case fresh_entry E s (PATH @ p @ str ''/'' @ n) of
        Inl e \<Rightarrow> Inl e
      | Inr None \<Rightarrow> Inr (PyBool False)
      | Inr (Some b) \<Rightarrow> Inr (PyBytes b), s)"
  by (simp add: check_cache_file_def get_cache_expiration_eq fresh_entry_def
      io_defs split: option.splits sum.splits)

lemma store_cache_file_eq:
  "store_cache_file c (Some p) n b s =
     (Inr (), s\<lparr>files := (files s)(PATH @ p @ str ''/'' @ n \<mapsto> \<lparr>content = b, mtime = now s\<rparr>)\<rparr>)"
  by (simp add: store_cache_file_def io_defs)




lemma us_examples:
  "floor_us 172801 = 172801" "round_us (9999996 / 10000000) = 1"
  "floor_us 172800 = 172800" "round_us 0 = 0" "floor_us 0 = 0"
  by (simp_all add: floor_us_def round_us_def round_half_even_def)




text \<open>
  C3. Whatever the state of the process, the cache obtained by one component and the
  cache obtained afterwards by another are the same object, and what is stored through
  the first is returned by a lookup through the second. (The offset of local time is
  taken to lie between minus two days and plus one day, and the clock within the range
  of \<open>datetime\<close>, as every real offset and clock do.)
\<close>

theorem cache_is_singleton:
  assumes "\<forall>x. - 172800 \<le> utcoffset E x \<and> utcoffset E x \<le> 86400" and "datetime_clock (now s)"
  shows "\<exists>c s1 s2 s3.
           cache_instance s = (Inr c, s1)
         \<and> store_cache_file c (Some p) n b s1 = (Inr (), s2)
         \<and> cache_instance s2 = (Inr c, s3)
         \<and> check_cache_file E c (Some p) n s3 = (Inr (PyBytes b), s3)"
proof (cases "cache_cls_instance s")
  case None
  with expiration_at_once [OF assms] show ?thesis
    by (simp add: cache_instance_def Cache_call_def io_defs check_cache_file_fresh
        store_cache_file_eq fresh_entry_def)
next
  case (Some c)
  with expiration_at_once [OF assms] show ?thesis
    by (simp add: cache_instance_def Cache_call_def io_defs check_cache_file_fresh
        store_cache_file_eq fresh_entry_def)
qed

theorem cache_is_singleton_witness:
  "(\<forall>x. - 172800 \<le> utcoffset demo_env x \<and> utcoffset demo_env x \<le> 86400)
   \<and> datetime_clock (now (new_proc 0 Map.empty))
   \<and> (\<exists>c s1 s2 s3.
           cache_instance (new_proc 0 Map.empty) = (Inr c, s1)
         \<and> store_cache_file c (Some (str ''nmbe.ch'')) (str ''service.wsdl'') ''<service/>'' s1
             = (Inr (), s2)
         \<and> cache_instance s2 = (Inr c, s3)
         \<and> check_cache_file demo_env c (Some (str ''nmbe.ch'')) (str ''service.wsdl'') s3
             = (Inr (PyBytes ''<service/>''), s3))"
proof -
  have z: "\<forall>x. - 172800 \<le> utcoffset demo_env x \<and> utcoffset demo_env x \<le> 86400"
    by (simp add: demo_env_def)
  have d: "datetime_clock (now (new_proc 0 Map.empty))"
    by (simp add: new_proc_def datetime_clock_def)
  show ?thesis
    using cache_is_singleton [OF z d] z d by simp
qed

section \<open>Retrieval of data and metadata\<close>

text \<open>
  C10. With no data endpoint \<open>get_data\<close> returns \<open>False\<close>, with no metadata endpoint
  \<open>get_metadata\<close> returns \<open>None\<close>; each only prints a line: no request and no exception.
\<close>

theorem absent_markers:
  "(data_url (service s) = None \<longrightarrow>
      get_data E l s =
        (Inr (PyBool False), s\<lparr>out := out s @ [Print (str ''No data URL available'')]\<rparr>))
   \<and> (metadata_url (service s) = None \<longrightarrow>
      get_metadata E l s =
        (Inr PyNone, s\<lparr>out := out s @ [Print (str ''No metadata URL available'')]\<rparr>))"
  by (simp add: get_data_def get_metadata_def io_defs)

theorem absent_markers_witness:
  "data_url (service (new_proc 0 Map.empty)) = None
   \<and> metadata_url (service (new_proc 0 Map.empty)) = None
   \<and> get_data demo_env (Some demo_lsid) (new_proc 0 Map.empty) =
        (Inr (PyBool False),
         (new_proc 0 Map.empty)\<lparr>out := [Print (str ''No data URL available'')]\<rparr>)
   \<and> get_metadata demo_env (Some demo_lsid) (new_proc 0 Map.empty) =
        (Inr PyNone,
         (new_proc 0 Map.empty)\<lparr>out := [Print (str ''No metadata URL available'')]\<rparr>)"
  using absent_markers [of "new_proc 0 Map.empty" demo_env "Some demo_lsid"]
  by (simp add: new_proc_def)

lemma get_data_request:
  "data_url (service s) = Some u \<Longrightarrow>
   get_data E (Some l) s =
     (case http_get E (u @ str ''?lsid='' @ l) of Inl e \<Rightarrow> Inl e | Inr b \<Rightarrow> Inr (PyBytes b),
      s\<lparr>out := out s @ [HttpGet (u @ str ''?lsid='' @ l) None]\<rparr>)"
  by (simp add: get_data_def urlopen_read_def io_defs split: sum.splits)

lemma get_metadata_request:
  "metadata_url (service s) = Some u \<Longrightarrow>
   get_metadata E (Some l) s =
     (case http_get E (u @ str ''?lsid='' @ l) of Inl e \<Rightarrow> Inl e | Inr b \<Rightarrow> Inr (PyBytes b),
      s\<lparr>out := out s @ [HttpGet (u @ str ''?lsid='' @ l) None]\<rparr>)"
  by (simp add: get_metadata_def urlopen_read_def io_defs split: sum.splits)

text \<open>
  C9 at a process that knows both endpoints: the requests of \<open>get_data\<close> and of
  \<open>get_metadata\<close> are made without a timeout.
\<close>

theorem final_requests_have_no_timeout:
  "out (snd (get_data demo_env (Some demo_lsid) endpoints_proc)) =
     [HttpGet (str ''https://lsid.nmbe.ch/data?lsid='' @ demo_lsid) None]
   \<and> out (snd (get_metadata demo_env (Some demo_lsid) endpoints_proc)) =
     [HttpGet (str ''https://lsid.nmbe.ch/meta?lsid='' @ demo_lsid) None]"
proof -
  have d: "data_url (service endpoints_proc) = Some (str ''https://lsid.nmbe.ch/data'')"
    and m: "metadata_url (service endpoints_proc) = Some (str ''https://lsid.nmbe.ch/meta'')"
    and o: "out endpoints_proc = []"
    by (simp_all add: endpoints_proc_def located_proc_def new_proc_def)
  show ?thesis
    by (simp add: get_data_request [OF d] get_metadata_request [OF m] o str_def)
qed

section \<open>Location of the service\<close>

lemma srv_body_step: "target d \<noteq> [] \<Longrightarrow> srv_body d s = (Inr (), srv_step s d)"
  by (simp add: srv_body_def srv_step_def strip_dot_def srv_line_def io_defs Let_def)

lemma for_each_srv:
  "\<forall>d \<in> set ds. target d \<noteq> [] \<Longrightarrow> for_each ds srv_body s = (Inr (), foldl srv_step s ds)"
  by (induction ds arbitrary: s) (simp_all add: srv_body_step io_defs)

lemma foldl_srv_step:
  "ds \<noteq> [] \<Longrightarrow>
   foldl srv_step s ds =
     s\<lparr>authority := (authority s)\<lparr>service_url := Some (strip_dot (target (last ds))),
                                    service_port := Some (str_nat (port (last ds)))\<rparr>,
       out := out s @ map srv_line ds\<rparr>"
proof (induction ds rule: rev_induct)
  case Nil
  then show ?case by simp
next
  case (snoc d ds)
  show ?case
  proof (cases "ds = []")
    case True
    then show ?thesis by (simp add: srv_step_def)
  next
    case False
    with snoc show ?thesis by (simp add: srv_step_def)
  qed
qed

lemma set_service_url_eq:
  assumes "url_part (authority s) = Some a"
    and "srv_lookup E (str ''_lsid._tcp.'' @ a) = Inr answers"
    and "answers \<noteq> []"
    and "\<forall>d \<in> set answers. target d \<noteq> []"
  shows "set_service_url E s =
           (if strip_dot (target (last answers)) = []
            then Inl (NoValueError (str ''Error: Unable to parse the service URL in SRV record''))
            else Inr (),
            s\<lparr>authority := (authority s)\<lparr>
                   service_url := Some (strip_dot (target (last answers))),
                   service_port := Some (str_nat (port (last answers)))\<rparr>,
              out := out s @ DnsQuery (str ''_lsid._tcp.'' @ a) (str ''SRV'') # map srv_line answers\<rparr>)"
proof -
  have fe: "for_each answers srv_body s' =
      (Inr (), s'\<lparr>authority := (authority s')\<lparr>
                   service_url := Some (strip_dot (target (last answers))),
                   service_port := Some (str_nat (port (last answers)))\<rparr>,
              out := out s' @ map srv_line answers\<rparr>)" for s'
    using assms(3,4) by (simp add: for_each_srv foldl_srv_step)
  show ?thesis
    using assms(1,2)
    by (simp add: set_service_url_def io_defs fe)
qed

lemma str_nat_443: "str_nat 443 = str ''443''"
  by (simp add: str_nat.simps str_def cp_def)

lemma str_nat_0: "str_nat 0 = str ''0''"
  by (simp add: str_nat.simps str_def cp_def)

lemma strip_dot_demo:
  "strip_dot (str ''lsid.nmbe.ch.'') = str ''lsid.nmbe.ch''" "strip_dot (str ''.'') = []"
  by (simp_all add: strip_dot_def str_def cp_def)

lemma srv_demo: "srv_lookup demo_env (str ''_lsid._tcp.'' @ str ''nmbe.ch'') = Inr [\<lparr>target = str ''lsid.nmbe.ch.'', port = 443\<rparr>]"
  by (simp add: demo_env_def str_def)

lemma srv_no_service:
  "srv_lookup no_service_env (str ''_lsid._tcp.'' @ str ''nmbe.ch'') = Inr [\<lparr>target = str ''.'', port = 0\<rparr>]"
  by (simp add: no_service_env_def)

lemma located_fields:
  "url_part (authority (located_proc fs)) = Some (str ''nmbe.ch'')"
  "service_url (authority (located_proc fs)) = Some (str ''lsid.nmbe.ch'')"
  "service_port (authority (located_proc fs)) = Some (str ''443'')"
  "files (located_proc fs) = fs" "out (located_proc fs) = []" "now (located_proc fs) = 0"
  "lsid (located_proc fs) = Some demo_lsid"
  by (simp_all add: located_proc_def new_proc_def)

text \<open>
  C8. With the authority name \<open>a\<close> extracted, the directory is asked for the SRV records
  of \<open>_lsid._tcp.a\<close>. For a non-empty answer (the text of a DNS name is never empty) every
  record has the final dot of its target stripped and is printed, and host and port of
  the last record are what the authority keeps; the call raises \<open>NoValueError\<close> exactly
  when that host is empty, hence whenever no record has a usable target.
\<close>

theorem set_service_url_last_record:
  assumes "url_part (authority s) = Some a"
    and "srv_lookup E (str ''_lsid._tcp.'' @ a) = Inr answers"
    and "answers \<noteq> []"
    and "\<forall>d \<in> set answers. target d \<noteq> []"
  shows "set_service_url E s =
           (if strip_dot (target (last answers)) = []
            then Inl (NoValueError (str ''Error: Unable to parse the service URL in SRV record''))
            else Inr (),
            s\<lparr>authority := (authority s)\<lparr>
                   service_url := Some (strip_dot (target (last answers))),
                   service_port := Some (str_nat (port (last answers)))\<rparr>,
              out := out s @ DnsQuery (str ''_lsid._tcp.'' @ a) (str ''SRV'') # map srv_line answers\<rparr>)
       \<and> ((\<forall>d \<in> set answers. strip_dot (target d) = []) \<longrightarrow>
           fst (set_service_url E s) =
             Inl (NoValueError (str ''Error: Unable to parse the service URL in SRV record'')))"
proof -
  from assms(3) have "last answers \<in> set answers" by simp
  then show ?thesis
    unfolding set_service_url_eq [OF assms] by auto
qed

theorem set_service_url_last_record_witness:
  "url_part (authority (located_proc Map.empty)) = Some (str ''nmbe.ch'')
   \<and> srv_lookup demo_env (str ''_lsid._tcp.'' @ str ''nmbe.ch'') =
        Inr [\<lparr>target = str ''lsid.nmbe.ch.'', port = 443\<rparr>]
   \<and> set_service_url demo_env (located_proc Map.empty) =
        (Inr (), (located_proc Map.empty)\<lparr>out :=
           [DnsQuery (str ''_lsid._tcp.nmbe.ch'') (str ''SRV''),
            Print (str ''Service target: lsid.nmbe.ch | Port: 443'')]\<rparr>)
   \<and> srv_lookup no_service_env (str ''_lsid._tcp.'' @ str ''nmbe.ch'') =
        Inr [\<lparr>target = str ''.'', port = 0\<rparr>]
   \<and> fst (set_service_url no_service_env (located_proc Map.empty)) =
        Inl (NoValueError (str ''Error: Unable to parse the service URL in SRV record''))"
proof -
  have t: "\<forall>d \<in> set [\<lparr>target = str ''lsid.nmbe.ch.'', port = 443\<rparr>]. target d \<noteq> []"
    "\<forall>d \<in> set [\<lparr>target = str ''.'', port = 0\<rparr>]. target d \<noteq> []"
    by (simp_all add: str_def)
  have n: "[\<lparr>target = str ''lsid.nmbe.ch.'', port = 443\<rparr>] \<noteq> []" "[\<lparr>target = str ''.'', port = 0\<rparr>] \<noteq> []"
    by simp_all
  have a: "set_service_url demo_env (located_proc Map.empty) =
        (Inr (), (located_proc Map.empty)\<lparr>out :=
           [DnsQuery (str ''_lsid._tcp.nmbe.ch'') (str ''SRV''),
            Print (str ''Service target: lsid.nmbe.ch | Port: 443'')]\<rparr>)"
    using set_service_url_last_record [OF located_fields(1) srv_demo n(1) t(1)]
    by (simp add: strip_dot_demo str_nat_443 srv_line_def located_proc_def new_proc_def)
       (simp add: str_def)
  have b: "fst (set_service_url no_service_env (located_proc Map.empty)) =
        Inl (NoValueError (str ''Error: Unable to parse the service URL in SRV record''))"
    using set_service_url_last_record [OF located_fields(1) srv_no_service n(2) t(2)]
    by (simp add: strip_dot_demo)
  show ?thesis
    using a b srv_demo srv_no_service located_fields(1) by simp
qed

section \<open>Extraction of the endpoints\<close>

lemma extract_authority_url_cases:
  "extract_authority_url wsdl s =
     (case authority_nodes wsdl of
        [node] \<Rightarrow>
          (case get_attr node (str ''location'') of
             None \<Rightarrow> (Inl TypeError, s\<lparr>authority := (authority s)\<lparr>authority_url := None\<rparr>\<rparr>)
           | Some u \<Rightarrow>
               (if u = [] then Inl (NoValueError (str ''No HTTP binding in authority.wsdl found''))
                else Inr (),
                s\<lparr>authority := (authority s)\<lparr>authority_url := Some u\<rparr>,
                  out := out s @ [Print (str ''Authority binding: '' @ u)]\<rparr>))
      | _ \<Rightarrow> (Inl (NoElementError (str ''No authority address element found'')), s))"
  by (simp add: extract_authority_url_def io_defs split: list.splits option.splits)

lemma authority_doc_nodes: "authority_nodes authority_doc = [address_elem ''https://lsid.nmbe.ch:443'']"
  by (simp add: authority_nodes_def matching_ports_def child_named_def re_test_binding_def
      get_attr_def endswith_def authority_doc_def definitions_elem_def port_elem_def
      address_elem_def wsdl_ns_def http_ns_def str_def cp_def)

lemma bare: "matching_ports (str ''LSIDAuthorityHTTPBinding'') bare_port_doc = [port_elem ''tns:LSIDAuthorityHTTPBinding'' []]"
  by (simp add: authority_nodes_def matching_ports_def child_named_def re_test_binding_def
      get_attr_def endswith_def bare_port_doc_def definitions_elem_def port_elem_def
      address_elem_def wsdl_ns_def http_ns_def str_def cp_def)

lemma bare_nodes: "authority_nodes bare_port_doc = []"
  by (simp add: authority_nodes_def bare) (simp add: port_elem_def)

lemma no_location_nodes:
  "data_nodes no_location_doc = [Element http_ns (str ''address'') [] []]"
  "metadata_nodes no_location_doc = [address_elem ''https://lsid.nmbe.ch/meta'']"
  by (simp_all add: data_nodes_def metadata_nodes_def matching_ports_def child_named_def re_test_binding_def
      get_attr_def endswith_def no_location_doc_def definitions_elem_def port_elem_def
      address_elem_def wsdl_ns_def http_ns_def str_def cp_def)


lemma address_location: "get_attr (address_elem loc) (str ''location'') = Some (str loc)"
  by (simp add: get_attr_def address_elem_def)



text \<open>
  C5, as the program has it. The query selects the address children of the service
  ports whose binding ends in \<open>LSIDAuthorityHTTPBinding\<close>. The extraction raises
  \<open>NoElementError\<close> exactly when the number of these address elements is not one. When
  there is exactly one and it has a \<open>location\<close> attribute, the authority endpoint is set
  to that value and the call succeeds, unless the value is empty, when it raises
  \<open>NoValueError\<close>.
\<close>

theorem extract_authority_url_unique_address:
  "(fst (extract_authority_url wsdl s) = Inl (NoElementError (str ''No authority address element found''))
      \<longleftrightarrow> length (authority_nodes wsdl) \<noteq> 1)
   \<and> (\<forall>node u. authority_nodes wsdl = [node] \<and> get_attr node (str ''location'') = Some u \<longrightarrow>
         extract_authority_url wsdl s =
           (if u = [] then Inl (NoValueError (str ''No HTTP binding in authority.wsdl found''))
            else Inr (),
            s\<lparr>authority := (authority s)\<lparr>authority_url := Some u\<rparr>,
              out := out s @ [Print (str ''Authority binding: '' @ u)]\<rparr>))"
  unfolding extract_authority_url_cases
  by (auto split: list.splits option.splits)

theorem extract_authority_url_unique_address_witness:
  "authority_nodes authority_doc = [address_elem ''https://lsid.nmbe.ch:443'']
   \<and> get_attr (address_elem ''https://lsid.nmbe.ch:443'') (str ''location'') =
        Some (str ''https://lsid.nmbe.ch:443'')
   \<and> extract_authority_url authority_doc (new_proc 0 Map.empty) =
        (Inr (), (new_proc 0 Map.empty)\<lparr>
           authority := (authority (new_proc 0 Map.empty))\<lparr>
              authority_url := Some (str ''https://lsid.nmbe.ch:443'')\<rparr>,
           out := [Print (str ''Authority binding: '' @ str ''https://lsid.nmbe.ch:443'')]\<rparr>)"
proof -
  have ne: "str ''https://lsid.nmbe.ch:443'' \<noteq> []"
    by (simp add: str_def)
  have o: "out (new_proc 0 Map.empty) = []"
    by (simp add: new_proc_def)
  show ?thesis
    using extract_authority_url_unique_address [of authority_doc "new_proc 0 Map.empty"]
      authority_doc_nodes address_location [of "''https://lsid.nmbe.ch:443''"] ne o
    by simp
qed

text \<open>
  A document with exactly one matching port, which has no address child: the extraction
  raises \<open>NoElementError\<close> although the number of matching ports is one.
\<close>

theorem port_without_address_counterexample:
  "length (matching_ports (str ''LSIDAuthorityHTTPBinding'') bare_port_doc) = 1
   \<and> fst (extract_authority_url bare_port_doc (new_proc 0 Map.empty)) =
        Inl (NoElementError (str ''No authority address element found''))"
  by (simp add: bare extract_authority_url_cases bare_nodes)

text \<open>
  C6 at a document whose data address lacks the \<open>location\<close> attribute and whose
  metadata port is well-formed: the concatenation for the printed line raises
  \<open>TypeError\<close>, which the handler for \<open>ValueError\<close> lets through, so the metadata
  endpoint is never extracted.
\<close>

theorem missing_location_blocks_metadata:
  "metadata_nodes no_location_doc = [address_elem ''https://lsid.nmbe.ch/meta'']
   \<and> get_attr (address_elem ''https://lsid.nmbe.ch/meta'') (str ''location'') =
        Some (str ''https://lsid.nmbe.ch/meta'')
   \<and> extract_service_url no_location_doc (new_proc 0 Map.empty) =
        (Inl TypeError, new_proc 0 Map.empty)"
proof -
  have e: "get_attr (Element http_ns (str ''address'') [] []) (str ''location'') = None"
    by (simp add: get_attr_def)
  show ?thesis
    by (simp add: no_location_nodes address_location e extract_service_url_def io_defs new_proc_def)
qed

section \<open>Cache-first retrieval of the descriptions\<close>

lemma cache_instance_eq:
  "cache_instance s =
     (case cache_cls_instance s of
        None \<Rightarrow> (Inr (next_id s), s\<lparr>cache_cls_instance := Some (next_id s), next_id := Suc (next_id s)\<rparr>)
      | Some c \<Rightarrow> (Inr c, s))"
  by (simp add: cache_instance_def Cache_call_def io_defs split: option.splits)

lemma with_cache_fields [simp]:
  "files (with_cache s) = files s" "out (with_cache s) = out s" "now (with_cache s) = now s"
  "authority (with_cache s) = authority s" "service (with_cache s) = service s"
  "lsid (with_cache s) = lsid s"
  "cache_cls_instance (with_cache s) \<noteq> None"
  by (simp_all add: with_cache_def cache_instance_eq split: option.splits)

lemma cache_instance_with: "\<exists>c. cache_instance s = (Inr c, with_cache s)"
  by (simp add: with_cache_def cache_instance_eq split: option.splits)

lemma with_cache_idem [simp]: "with_cache (with_cache s) = with_cache s"
  by (simp add: with_cache_def cache_instance_eq split: option.splits)

lemma with_cache_update_out [simp]: "with_cache (s\<lparr>out := x\<rparr>) = (with_cache s)\<lparr>out := x\<rparr>"
  by (simp add: with_cache_def cache_instance_eq split: option.splits)



lemma fresh_entry_with_cache [simp]: "fresh_entry E (with_cache s) key = fresh_entry E s key"
  by (simp add: fresh_entry_def split: option.splits sum.splits)

lemma fresh_entry_out [simp]: "fresh_entry E (s\<lparr>out := x\<rparr>) key = fresh_entry E s key"
  by (simp add: fresh_entry_def split: option.splits sum.splits)

lemma bnd_cache_instance:
  "bnd cache_instance f s = (case cache_instance s of (Inr c, s') \<Rightarrow> f c s' | (Inl e, s') \<Rightarrow> (Inl e, s'))"
  by (simp add: bnd_def split: prod.splits sum.splits)

lemma load_authority_wsdl_eq:
  assumes "url_part (authority s) = Some a" "service_url (authority s) = Some h"
    "service_port (authority s) = Some q"
  shows "load_authority_wsdl E s =
    (let key = str ''cache/'' @ a @ str ''/authority.wsdl'';
         url = (if q = str ''443'' then str ''https://'' else str ''http://'') @ h @ str '':'' @ q
                 @ str ''/authority/''
     in case fresh_entry E s key of
          Inl e \<Rightarrow> (Inl e, with_cache s)
        | Inr (Some (c # cs)) \<Rightarrow>
            (fromstring E (c # cs),
             (with_cache s)\<lparr>out := out s @ [Print (str ''Cached authority.wsdl file available'')]\<rparr>)
        | Inr _ \<Rightarrow>
            (case http_get E url of
               Inl e \<Rightarrow> (Inl e, (with_cache s)\<lparr>out := out s @
                   [Print (str ''No authority.wsdl file cached or file expired''), HttpGet url (Some 120)]\<rparr>)
             | Inr body \<Rightarrow>
                 (case fromstring E body of
                    Inl e \<Rightarrow> (Inl e, (with_cache s)\<lparr>out := out s @
                      [Print (str ''No authority.wsdl file cached or file expired''), HttpGet url (Some 120)]\<rparr>)
                  | Inr doc \<Rightarrow> (Inr doc, (with_cache s)\<lparr>out := out s @
                      [Print (str ''No authority.wsdl file cached or file expired''), HttpGet url (Some 120)],
                      files := (files s)(key \<mapsto> \<lparr>content = body, mtime = now s\<rparr>)\<rparr>))))"
proof -
  obtain c where c: "cache_instance s = (Inr c, with_cache s)"
    using cache_instance_with by blast
  have c': "cache_instance ((with_cache s)\<lparr>out := x\<rparr>) = (Inr c, (with_cache s)\<lparr>out := x\<rparr>)" for x
    using c by (auto simp: with_cache_def cache_instance_eq split: option.splits)
  have k: "PATH @ a @ str ''/'' @ str ''authority.wsdl'' = str ''cache/'' @ a @ str ''/authority.wsdl''"
    by (simp add: PATH_def str_def)
  show ?thesis
    unfolding load_authority_wsdl_def bnd_cache_instance c
    using assms
    by (simp add: check_cache_file_fresh store_cache_file_eq k c' fromstring_val_def urlopen_read_def
        ret_def throw_def bnd_def thn_def lift_def emit_def reads_def need_str_def add_str_def
        Let_def
        split: option.splits list.splits sum.splits)
qed

lemma load_service_wsdl_eq:
  "load_service_wsdl E (Some au) (Some sn) (Some l) s =
    (let key = str ''cache/'' @ sn @ str ''/service.wsdl'';
         url = au @ str ''/authority/?lsid='' @ l
     in case fresh_entry E s key of
          Inl e \<Rightarrow> (Inl e, with_cache s)
        | Inr (Some (c # cs)) \<Rightarrow>
            (fromstring E (c # cs),
             (with_cache s)\<lparr>out := out s @ [Print (str ''Cached service.wsdl file available'')]\<rparr>)
        | Inr _ \<Rightarrow>
            (case http_get E url of
               Inl e \<Rightarrow> (Inl e, (with_cache s)\<lparr>out := out s @
                   [Print (str ''No service.wsdl file cached or file expired''), HttpGet url (Some 120)]\<rparr>)
             | Inr body \<Rightarrow>
                 (case fromstring E body of
                    Inl e \<Rightarrow> (Inl e, (with_cache s)\<lparr>out := out s @
                      [Print (str ''No service.wsdl file cached or file expired''), HttpGet url (Some 120)]\<rparr>)
                  | Inr doc \<Rightarrow> (Inr doc, (with_cache s)\<lparr>out := out s @
                      [Print (str ''No service.wsdl file cached or file expired''), HttpGet url (Some 120)],
                      files := (files s)(key \<mapsto> \<lparr>content = body, mtime = now s\<rparr>)\<rparr>))))"
proof -
  obtain c where c: "cache_instance s = (Inr c, with_cache s)"
    using cache_instance_with by blast
  have c': "cache_instance ((with_cache s)\<lparr>out := x\<rparr>) = (Inr c, (with_cache s)\<lparr>out := x\<rparr>)" for x
    using c by (auto simp: with_cache_def cache_instance_eq split: option.splits)
  have k: "PATH @ sn @ str ''/'' @ str ''service.wsdl'' = str ''cache/'' @ sn @ str ''/service.wsdl''"
    by (simp add: PATH_def str_def)
  show ?thesis
    unfolding load_service_wsdl_def bnd_cache_instance c
    by (simp add: check_cache_file_fresh store_cache_file_eq k c' fromstring_val_def urlopen_read_def
        ret_def throw_def bnd_def thn_def lift_def emit_def reads_def need_str_def add_str_def
        Let_def
        split: option.splits list.splits sum.splits)
qed

lemma http_events_simps [simp]:
  "http_events (es @ [Print m]) = http_events es"
  "http_events (es @ [Print m, HttpGet u t]) = http_events es @ [HttpGet u t]"
  by (simp_all add: http_events_def)

lemma cache_first_intro:
  assumes "\<And>e. fresh_entry E s key = Inl e \<Longrightarrow>
             \<exists>s'. load s = (Inl e, s') \<and> http_events (out s') = http_events (out s)
                   \<and> files s' = files s"
    and "\<And>c cs. fresh_entry E s key = Inr (Some (c # cs)) \<Longrightarrow>
             \<exists>s'. load s = (fromstring E (c # cs), s') \<and> http_events (out s') = http_events (out s)
                   \<and> files s' = files s"
    and "\<And>e. fresh_entry E s key \<in> {Inr None, Inr (Some [])} \<Longrightarrow> http_get E url = Inl e \<Longrightarrow>
             \<exists>s'. load s = (Inl e, s')
                   \<and> http_events (out s') = http_events (out s) @ [HttpGet url (Some 120)]
                   \<and> files s' = files s"
    and "\<And>body e. fresh_entry E s key \<in> {Inr None, Inr (Some [])} \<Longrightarrow> http_get E url = Inr body \<Longrightarrow>
             fromstring E body = Inl e \<Longrightarrow>
             \<exists>s'. load s = (Inl e, s')
                   \<and> http_events (out s') = http_events (out s) @ [HttpGet url (Some 120)]
                   \<and> files s' = files s"
    and "\<And>body doc. fresh_entry E s key \<in> {Inr None, Inr (Some [])} \<Longrightarrow> http_get E url = Inr body \<Longrightarrow>
             fromstring E body = Inr doc \<Longrightarrow>
             \<exists>s'. load s = (Inr doc, s')
                   \<and> http_events (out s') = http_events (out s) @ [HttpGet url (Some 120)]
                   \<and> files s' = (files s)(key \<mapsto> \<lparr>content = body, mtime = now s\<rparr>)"
  shows "cache_first E load key url s"
proof (cases "fresh_entry E s key \<in> {Inr None, Inr (Some [])}")
  case False
  show ?thesis
  proof (cases "fresh_entry E s key")
    case err: (Inl e)
    from assms(1) [OF err] show ?thesis
      by (auto simp: cache_first_def err)
  next
    case (Inr v)
    with False have "v \<noteq> None" "v \<noteq> Some []" by auto
    then obtain c cs where "v = Some (c # cs)"
      by (cases v) (auto simp: neq_Nil_conv)
    with Inr have hit: "fresh_entry E s key = Inr (Some (c # cs))" by simp
    from assms(2) [OF hit] show ?thesis
      by (auto simp: cache_first_def hit)
  qed
next
  case miss: True
  show ?thesis
  proof (cases "http_get E url")
    case (Inl e)
    from assms(3) [OF miss Inl] miss show ?thesis
      by (auto simp: cache_first_def Inl)
  next
    case (Inr body)
    show ?thesis
    proof (cases "fromstring E body")
      case (Inl e)
      from assms(4) [OF miss Inr Inl] miss show ?thesis
        by (auto simp: cache_first_def Inr Inl)
    next
      case doc: (Inr doc)
      from assms(5) [OF miss Inr doc] miss show ?thesis
        by (auto simp: cache_first_def Inr doc)
    qed
  qed
qed

lemma authority_cache_first:
  assumes "url_part (authority s) = Some a" and "service_url (authority s) = Some h"
    and "service_port (authority s) = Some q"
  shows "cache_first E (load_authority_wsdl E)
           (str ''cache/'' @ a @ str ''/authority.wsdl'')
           ((if q = str ''443'' then str ''https://'' else str ''http://'') @ h @ str '':'' @ q
              @ str ''/authority/'') s"
proof (rule cache_first_intro)
  fix e
  assume "fresh_entry E s (str ''cache/'' @ a @ str ''/authority.wsdl'') = Inl e"
  then show "\<exists>s'. load_authority_wsdl E s = (Inl e, s')
      \<and> http_events (out s') = http_events (out s) \<and> files s' = files s"
    by (simp add: load_authority_wsdl_eq [OF assms] Let_def)
next
  fix c cs
  assume "fresh_entry E s (str ''cache/'' @ a @ str ''/authority.wsdl'') = Inr (Some (c # cs))"
  then show "\<exists>s'. load_authority_wsdl E s = (fromstring E (c # cs), s')
      \<and> http_events (out s') = http_events (out s) \<and> files s' = files s"
    by (simp add: load_authority_wsdl_eq [OF assms] Let_def)
next
  fix e
  assume "fresh_entry E s (str ''cache/'' @ a @ str ''/authority.wsdl'') \<in> {Inr None, Inr (Some [])}"
    "http_get E ((if q = str ''443'' then str ''https://'' else str ''http://'') @ h @ str '':'' @ q
              @ str ''/authority/'') = Inl e"
  then show "\<exists>s'. load_authority_wsdl E s = (Inl e, s')
      \<and> http_events (out s') = http_events (out s) @
           [HttpGet ((if q = str ''443'' then str ''https://'' else str ''http://'') @ h @ str '':'' @ q
              @ str ''/authority/'') (Some 120)]
      \<and> files s' = files s"
    by (auto simp: load_authority_wsdl_eq [OF assms] Let_def)
next
  fix body e
  assume "fresh_entry E s (str ''cache/'' @ a @ str ''/authority.wsdl'') \<in> {Inr None, Inr (Some [])}"
    "http_get E ((if q = str ''443'' then str ''https://'' else str ''http://'') @ h @ str '':'' @ q
              @ str ''/authority/'') = Inr body" "fromstring E body = Inl e"
  then show "\<exists>s'. load_authority_wsdl E s = (Inl e, s')
      \<and> http_events (out s') = http_events (out s) @
           [HttpGet ((if q = str ''443'' then str ''https://'' else str ''http://'') @ h @ str '':'' @ q
              @ str ''/authority/'') (Some 120)]
      \<and> files s' = files s"
    by (auto simp: load_authority_wsdl_eq [OF assms] Let_def)
next
  fix body doc
  assume "fresh_entry E s (str ''cache/'' @ a @ str ''/authority.wsdl'') \<in> {Inr None, Inr (Some [])}"
    "http_get E ((if q = str ''443'' then str ''https://'' else str ''http://'') @ h @ str '':'' @ q
              @ str ''/authority/'') = Inr body" "fromstring E body = Inr doc"
  then show "\<exists>s'. load_authority_wsdl E s = (Inr doc, s')
      \<and> http_events (out s') = http_events (out s) @
           [HttpGet ((if q = str ''443'' then str ''https://'' else str ''http://'') @ h @ str '':'' @ q
              @ str ''/authority/'') (Some 120)]
      \<and> files s' = (files s)(str ''cache/'' @ a @ str ''/authority.wsdl'' \<mapsto>
            \<lparr>content = body, mtime = now s\<rparr>)"
    by (auto simp: load_authority_wsdl_eq [OF assms] Let_def)
qed

lemma service_cache_first:
  "cache_first E (load_service_wsdl E (Some au) (Some sn) (Some l))
           (str ''cache/'' @ sn @ str ''/service.wsdl'')
           (au @ str ''/authority/?lsid='' @ l) s"
proof (rule cache_first_intro)
  fix e
  assume "fresh_entry E s (str ''cache/'' @ sn @ str ''/service.wsdl'') = Inl e"
  then show "\<exists>s'. load_service_wsdl E (Some au) (Some sn) (Some l) s = (Inl e, s')
      \<and> http_events (out s') = http_events (out s) \<and> files s' = files s"
    by (simp add: load_service_wsdl_eq Let_def)
next
  fix c cs
  assume "fresh_entry E s (str ''cache/'' @ sn @ str ''/service.wsdl'') = Inr (Some (c # cs))"
  then show "\<exists>s'. load_service_wsdl E (Some au) (Some sn) (Some l) s = (fromstring E (c # cs), s')
      \<and> http_events (out s') = http_events (out s) \<and> files s' = files s"
    by (simp add: load_service_wsdl_eq Let_def)
next
  fix e
  assume "fresh_entry E s (str ''cache/'' @ sn @ str ''/service.wsdl'') \<in> {Inr None, Inr (Some [])}"
    "http_get E (au @ str ''/authority/?lsid='' @ l) = Inl e"
  then show "\<exists>s'. load_service_wsdl E (Some au) (Some sn) (Some l) s = (Inl e, s')
      \<and> http_events (out s') = http_events (out s) @
           [HttpGet (au @ str ''/authority/?lsid='' @ l) (Some 120)]
      \<and> files s' = files s"
    by (auto simp: load_service_wsdl_eq Let_def)
next
  fix body e
  assume "fresh_entry E s (str ''cache/'' @ sn @ str ''/service.wsdl'') \<in> {Inr None, Inr (Some [])}"
    "http_get E (au @ str ''/authority/?lsid='' @ l) = Inr body" "fromstring E body = Inl e"
  then show "\<exists>s'. load_service_wsdl E (Some au) (Some sn) (Some l) s = (Inl e, s')
      \<and> http_events (out s') = http_events (out s) @
           [HttpGet (au @ str ''/authority/?lsid='' @ l) (Some 120)]
      \<and> files s' = files s"
    by (auto simp: load_service_wsdl_eq Let_def)
next
  fix body doc
  assume "fresh_entry E s (str ''cache/'' @ sn @ str ''/service.wsdl'') \<in> {Inr None, Inr (Some [])}"
    "http_get E (au @ str ''/authority/?lsid='' @ l) = Inr body" "fromstring E body = Inr doc"
  then show "\<exists>s'. load_service_wsdl E (Some au) (Some sn) (Some l) s = (Inr doc, s')
      \<and> http_events (out s') = http_events (out s) @
           [HttpGet (au @ str ''/authority/?lsid='' @ l) (Some 120)]
      \<and> files s' = (files s)(str ''cache/'' @ sn @ str ''/service.wsdl'' \<mapsto>
            \<lparr>content = body, mtime = now s\<rparr>)"
    by (auto simp: load_service_wsdl_eq Let_def)
qed

lemma str_append: "str a @ str b = str (a @ b)"
  by (simp add: str_def)

lemma demo_urls:
  "(if str ''443'' = str ''443'' then str ''https://'' else str ''http://'') @ str ''lsid.nmbe.ch''
      @ str '':'' @ str ''443'' @ str ''/authority/'' = str ''https://lsid.nmbe.ch:443/authority/''"
  "str ''cache/'' @ str ''nmbe.ch'' @ str ''/authority.wsdl'' = str ''cache/nmbe.ch/authority.wsdl''"
  "str ''cache/'' @ str ''nmbe.ch'' @ str ''/service.wsdl'' = str ''cache/nmbe.ch/service.wsdl''"
  by (simp_all add: str_def)

lemma demo_env_http:
  "http_get demo_env (str ''https://lsid.nmbe.ch:443/authority/'') = Inr ''<authority/>''"
  "fromstring demo_env ''<authority/>'' = Inr authority_doc"
  "fromstring demo_env ''<service/>'' = Inr service_doc"
  "utcoffset demo_env t = 0"
  by (simp_all add: demo_env_def)

lemma fresh_demo:
  "fresh_entry demo_env (located_proc Map.empty) k = Inr None"
  "fresh_entry demo_env (located_proc cached_files) (str ''cache/nmbe.ch/authority.wsdl'')
     = Inr (Some ''<authority/>'')"
  "fresh_entry demo_env (located_proc empty_entry_files) (str ''cache/nmbe.ch/authority.wsdl'')
     = Inr (Some [])"
proof -
  have e: "expiration_at demo_env 0 0 = Inr True"
    by (simp add: expiration_at_def us_examples demo_env_def DATETIME_MIN_def DATETIME_END_def)
  show "fresh_entry demo_env (located_proc Map.empty) k = Inr None"
    by (simp add: fresh_entry_def located_fields)
  show "fresh_entry demo_env (located_proc cached_files) (str ''cache/nmbe.ch/authority.wsdl'')
     = Inr (Some ''<authority/>'')"
    by (simp add: fresh_entry_def located_fields cached_files_def e)
  show "fresh_entry demo_env (located_proc empty_entry_files) (str ''cache/nmbe.ch/authority.wsdl'')
     = Inr (Some [])"
    by (simp add: fresh_entry_def located_fields empty_entry_files_def e)
qed

text \<open>
  C4, as the program has it. Both descriptions are retrieved cache-first: on a fresh and
  non-empty entry under the path of the description the document is parsed from the
  cached bytes without any request; otherwise one GET goes to the source URL with a
  timeout of 120 seconds, a failure ends the retrieval without a second attempt, and a
  body that parses is stored under that path and its document returned. (Should the
  lookup itself raise, on a file date that no \<open>datetime\<close> holds, the retrieval raises
  the same and sends nothing.)
\<close>

theorem descriptions_are_cache_first:
  assumes "url_part (authority s) = Some a" and "service_url (authority s) = Some h"
    and "service_port (authority s) = Some q"
  shows "cache_first E (load_authority_wsdl E)
           (str ''cache/'' @ a @ str ''/authority.wsdl'')
           ((if q = str ''443'' then str ''https://'' else str ''http://'') @ h @ str '':'' @ q
              @ str ''/authority/'') s
       \<and> cache_first E (load_service_wsdl E (Some au) (Some sn) (Some l))
           (str ''cache/'' @ sn @ str ''/service.wsdl'')
           (au @ str ''/authority/?lsid='' @ l) s"
  using authority_cache_first [OF assms] service_cache_first by blast

theorem descriptions_are_cache_first_witness:
  "url_part (authority (located_proc cached_files)) = Some (str ''nmbe.ch'')
   \<and> service_url (authority (located_proc cached_files)) = Some (str ''lsid.nmbe.ch'')
   \<and> service_port (authority (located_proc cached_files)) = Some (str ''443'')
   \<and> fst (load_authority_wsdl demo_env (located_proc cached_files)) = Inr authority_doc
   \<and> http_events (out (snd (load_authority_wsdl demo_env (located_proc cached_files)))) = []
   \<and> files (snd (load_authority_wsdl demo_env (located_proc cached_files))) = cached_files
   \<and> fst (load_authority_wsdl demo_env (located_proc Map.empty)) = Inr authority_doc
   \<and> http_events (out (snd (load_authority_wsdl demo_env (located_proc Map.empty)))) =
       [HttpGet (str ''https://lsid.nmbe.ch:443/authority/'') (Some 120)]
   \<and> files (snd (load_authority_wsdl demo_env (located_proc Map.empty))) =
       [str ''cache/nmbe.ch/authority.wsdl'' \<mapsto> \<lparr>content = ''<authority/>'', mtime = 0\<rparr>]"
proof -
  have hit: "cache_first demo_env (load_authority_wsdl demo_env)
      (str ''cache/nmbe.ch/authority.wsdl'') (str ''https://lsid.nmbe.ch:443/authority/'')
      (located_proc cached_files)"
    using descriptions_are_cache_first [OF located_fields(1-3), of demo_env cached_files]
    by (simp only: demo_urls)
  have miss: "cache_first demo_env (load_authority_wsdl demo_env)
      (str ''cache/nmbe.ch/authority.wsdl'') (str ''https://lsid.nmbe.ch:443/authority/'')
      (located_proc Map.empty)"
    using descriptions_are_cache_first [OF located_fields(1-3), of demo_env Map.empty]
    by (simp only: demo_urls)
  from hit have "fst (load_authority_wsdl demo_env (located_proc cached_files)) = Inr authority_doc
   \<and> http_events (out (snd (load_authority_wsdl demo_env (located_proc cached_files)))) = []
   \<and> files (snd (load_authority_wsdl demo_env (located_proc cached_files))) = cached_files"
    by (simp add: cache_first_def fresh_demo demo_env_http located_fields http_events_def)
  moreover from miss have "fst (load_authority_wsdl demo_env (located_proc Map.empty)) = Inr authority_doc
   \<and> http_events (out (snd (load_authority_wsdl demo_env (located_proc Map.empty)))) =
       [HttpGet (str ''https://lsid.nmbe.ch:443/authority/'') (Some 120)]
   \<and> files (snd (load_authority_wsdl demo_env (located_proc Map.empty))) =
       [str ''cache/nmbe.ch/authority.wsdl'' \<mapsto> \<lparr>content = ''<authority/>'', mtime = 0\<rparr>]"
    by (simp add: cache_first_def fresh_demo demo_env_http located_fields http_events_def)
  ultimately show ?thesis
    by (simp add: located_fields)
qed

text \<open>
  A fresh entry that is empty: the lookup returns it, the program takes it for a miss
  and sends the request.
\<close>

theorem empty_entry_is_refetched_counterexample:
  "fst (check_cache_file demo_env 0 (Some (str ''nmbe.ch'')) (str ''authority.wsdl'')
          (located_proc empty_entry_files)) = Inr (PyBytes [])
   \<and> http_events (out (snd (load_authority_wsdl demo_env (located_proc empty_entry_files)))) =
       [HttpGet (str ''https://lsid.nmbe.ch:443/authority/'') (Some 120)]"
proof -
  have "cache_first demo_env (load_authority_wsdl demo_env)
      (str ''cache/nmbe.ch/authority.wsdl'') (str ''https://lsid.nmbe.ch:443/authority/'')
      (located_proc empty_entry_files)"
    using authority_cache_first [OF located_fields(1-3), of demo_env empty_entry_files]
    by (simp only: demo_urls)
  then have "http_events (out (snd (load_authority_wsdl demo_env (located_proc empty_entry_files)))) =
       [HttpGet (str ''https://lsid.nmbe.ch:443/authority/'') (Some 120)]"
    by (simp add: cache_first_def fresh_demo demo_env_http located_fields http_events_def)
  moreover have "fst (check_cache_file demo_env 0 (Some (str ''nmbe.ch'')) (str ''authority.wsdl'')
          (located_proc empty_entry_files)) = Inr (PyBytes [])"
    by (simp add: check_cache_file_fresh PATH_def str_append fresh_demo)
  ultimately show ?thesis by simp
qed

section \<open>The final retrieval\<close>













end
